theory Spec2Isabelle
  imports Main
begin

section \<open>JavaScript values\<close>

text \<open>
  The four callable functions of \<^verbatim>\<open>index.js\<close> receive JSON-decoded request data and
  talk to three collaborators: the Firestore document store, the Stream client and the
  clock. Strings are sequences of UTF-16 code units, as in JavaScript; \<open>lit\<close> turns an
  ASCII literal of the source into such a sequence.
\<close>

type_synonym jsstring = "nat list"

definition lit :: "string \<Rightarrow> jsstring" where
  "lit s = map of_char s"

datatype jsval =
    JUndefined
  | JNull
  | JBool bool
  | JNum int
  | JStr jsstring
  | JArr "jsval list"
  | JObj "(jsstring \<times> jsval) list"
  | JDate int
  | JTimestamp int

text \<open>
  \<open>JDate t\<close> is a \<^verbatim>\<open>Date\<close> and \<open>JTimestamp t\<close> a Firestore \<^verbatim>\<open>Timestamp\<close> at \<open>t\<close>
  milliseconds since the epoch. Numbers are only tested for truthiness and type here,
  so integers stand for them.
\<close>

fun truthy :: "jsval \<Rightarrow> bool" where
  "truthy JUndefined = False"
| "truthy JNull = False"
| "truthy (JBool b) = b"
| "truthy (JNum n) = (n \<noteq> 0)"
| "truthy (JStr s) = (s \<noteq> [])"
| "truthy (JArr xs) = True"
| "truthy (JObj fs) = True"
| "truthy (JDate t) = True"
| "truthy (JTimestamp t) = True"

fun typeof :: "jsval \<Rightarrow> jsstring" where
  "typeof JUndefined = lit ''undefined''"
| "typeof (JBool b) = lit ''boolean''"
| "typeof (JNum n) = lit ''number''"
| "typeof (JStr s) = lit ''string''"
| "typeof v = lit ''object''"

fun isArray :: "jsval \<Rightarrow> bool" where
  "isArray (JArr xs) = True"
| "isArray v = False"

fun elems :: "jsval \<Rightarrow> jsval list" where
  "elems (JArr xs) = xs"
| "elems v = []"

fun str :: "jsval \<Rightarrow> jsstring" where
  "str (JStr s) = s"
| "str v = []"

text \<open>
  \<open>js_member v k\<close> is the property read \<^verbatim>\<open>v.k\<close> on a value that is neither \<^verbatim>\<open>null\<close> nor
  \<^verbatim>\<open>undefined\<close>, for the own properties of a plain object (none of the keys the source
  reads is inherited). \<open>opt_member\<close> is \<^verbatim>\<open>v?.k\<close>.
\<close>

fun js_member :: "jsval \<Rightarrow> jsstring \<Rightarrow> jsval" where
  "js_member (JObj fs) k = (case map_of fs k of None \<Rightarrow> JUndefined | Some v \<Rightarrow> v)"
| "js_member v k = JUndefined"

definition nullish :: "jsval \<Rightarrow> bool" where
  "nullish v = (v = JUndefined \<or> v = JNull)"

definition opt_member :: "jsval \<Rightarrow> jsstring \<Rightarrow> jsval" where
  "opt_member v k = (if nullish v then JUndefined else js_member v k)"

definition js_or :: "jsval \<Rightarrow> jsval \<Rightarrow> jsval" where
  "js_or a b = (if truthy a then a else b)"

subsection \<open>String operations\<close>

text \<open>The code units \<^verbatim>\<open>String.prototype.trim\<close> strips: white space and line terminators.\<close>

definition isWhiteSpace :: "nat \<Rightarrow> bool" where
  "isWhiteSpace c =
     (c = 9 \<or> c = 10 \<or> c = 11 \<or> c = 12 \<or> c = 13 \<or> c = 32 \<or> c = 160 \<or> c = 5760
      \<or> (8192 \<le> c \<and> c \<le> 8202) \<or> c = 8232 \<or> c = 8233 \<or> c = 8239 \<or> c = 8287
      \<or> c = 12288 \<or> c = 65279)"

definition trim :: "jsstring \<Rightarrow> jsstring" where
  "trim s = rev (dropWhile isWhiteSpace (rev (dropWhile isWhiteSpace s)))"

fun str_includes :: "jsstring \<Rightarrow> jsstring \<Rightarrow> bool" where
  "str_includes [] t = (t = [])"
| "str_includes (c # s) t = (take (length t) (c # s) = t \<or> str_includes s t)"

text \<open>Decimal rendering of an integer, as a template literal renders \<^verbatim>\<open>Date.now()\<close>.\<close>

function dec :: "nat \<Rightarrow> jsstring" where
  "dec n = (if n < 10 then [48 + n] else dec (n div 10) @ [48 + n mod 10])"
  by pat_completeness auto
termination
  by (relation "measure (\<lambda>n. n)") auto

definition show_int :: "int \<Rightarrow> jsstring" where
  "show_int i = (if i < 0 then 45 # dec (nat (- i)) else dec (nat i))"

subsection \<open>Date.prototype.toISOString\<close>

text \<open>\<open>pad k n\<close> is the last \<open>k\<close> decimal digits of \<open>n\<close>, zero-padded.\<close>

fun pad :: "nat \<Rightarrow> nat \<Rightarrow> jsstring" where
  "pad 0 n = []"
| "pad (Suc k) n = pad k (n div 10) @ [48 + n mod 10]"

text \<open>
  The proleptic Gregorian date of a day number (days since 1970-01-01), by eras of 400
  years starting on 1 March.
\<close>

definition civil :: "int \<Rightarrow> int \<times> nat \<times> nat" where
  "civil days =
     (let z = days + 719468;
          era = z div 146097;
          doe = z - era * 146097;
          yoe = (doe - doe div 1460 + doe div 36524 - doe div 146096) div 365;
          doy = doe - (365 * yoe + yoe div 4 - yoe div 100);
          mp = (5 * doy + 2) div 153;
          d = doy - (153 * mp + 2) div 5 + 1;
          m = (if mp < 10 then mp + 3 else mp - 9);
          y = yoe + era * 400 + (if m \<le> 2 then 1 else 0)
      in (y, nat m, nat d))"

definition show_year :: "int \<Rightarrow> jsstring" where
  "show_year y =
     (if 0 \<le> y \<and> y \<le> 9999 then pad 4 (nat y)
      else (if y < 0 then 45 else 43) # pad 6 (nat \<bar>y\<bar>))"

definition toISOString :: "int \<Rightarrow> jsstring" where
  "toISOString t =
     (let (y, m, d) = civil (t div 86400000);
          ms = nat (t mod 86400000)
      in show_year y @ lit ''-'' @ pad 2 m @ lit ''-'' @ pad 2 d @ lit ''T''
         @ pad 2 (ms div 3600000) @ lit '':'' @ pad 2 (ms div 60000 mod 60) @ lit '':''
         @ pad 2 (ms div 1000 mod 60) @ lit ''.'' @ pad 3 (ms mod 1000) @ lit ''Z'')"

section \<open>Errors\<close>

datatype errcode = Unauthenticated | InvalidArgument | PermissionDenied | NotFound | Internal

datatype https_error = HttpsError (code: errcode) (message: jsstring)

text \<open>
  What a \<^verbatim>\<open>try\<close> block can throw: an \<^verbatim>\<open>HttpsError\<close> of the handler's own, or any other
  error (a rejected store or Stream call, a \<^verbatim>\<open>TypeError\<close>).
\<close>

datatype exn = Https https_error | Other

text \<open>
  An error that is not an \<^verbatim>\<open>HttpsError\<close> and that no \<^verbatim>\<open>catch\<close> of the handler sees is
  answered by \<^verbatim>\<open>onCall\<close> as \<^verbatim>\<open>internal\<close>.
\<close>

definition uncaught :: https_error where
  "uncaught = HttpsError Internal (lit ''INTERNAL'')"

definition failure_kind :: "https_error + jsval \<Rightarrow> errcode option" where
  "failure_kind r = (case r of Inl e \<Rightarrow> Some (code e) | Inr v \<Rightarrow> None)"

section \<open>The collaborators\<close>

type_synonym doc = "jsstring \<rightharpoonup> jsval"

text \<open>
  A field of the data handed to a store write: a value, or the sentinel
  \<^verbatim>\<open>FieldValue.serverTimestamp()\<close>.
\<close>

datatype field_value = Value jsval | ServerTimestamp

datatype event =
    DocGet jsstring jsstring
  | DocUpdate jsstring jsstring "(jsstring \<times> field_value) list"
  | DocSet jsstring jsstring "(jsstring \<times> field_value) list"
  | StreamUserCreate jsval
  | GenerateCallToken jsstring

text \<open>
  The world a handler runs in. \<open>store\<close> maps a collection name and a document identifier
  to the document. Every interaction with the outside (a store call, a Stream call, a
  clock read, a random number) takes one \<open>tick\<close>; what the outside answers at a tick is
  given by \<open>fault_at\<close> (the call is rejected), \<open>time_at\<close> (the clock, in epoch
  milliseconds) and \<open>random36_at\<close> (the characters 2 to 8 of the base-36 rendering of
  \<^verbatim>\<open>Math.random()\<close>). \<open>mint\<close> is the token the Stream client signs for a user.
  \<open>trace\<close> records the store and Stream calls made, in order.
\<close>

record world =
  store :: "jsstring \<times> jsstring \<rightharpoonup> doc"
  tick :: nat
  fault_at :: "nat \<Rightarrow> bool"
  time_at :: "nat \<Rightarrow> int"
  random36_at :: "nat \<Rightarrow> jsstring"
  mint :: "jsstring \<Rightarrow> jsstring"
  trace :: "event list"

definition step :: "event list \<Rightarrow> world \<Rightarrow> world" where
  "step es w = w\<lparr>tick := Suc (tick w), trace := trace w @ es\<rparr>"

definition date_now :: "world \<Rightarrow> int \<times> world" where
  "date_now w = (time_at w (tick w), step [] w)"

definition random36 :: "world \<Rightarrow> jsstring \<times> world" where
  "random36 w = (random36_at w (tick w), step [] w)"

definition doc_field :: "doc \<Rightarrow> jsstring \<Rightarrow> jsval" where
  "doc_field d k = (case d k of None \<Rightarrow> JUndefined | Some v \<Rightarrow> v)"

fun resolve :: "int \<Rightarrow> field_value \<Rightarrow> jsval" where
  "resolve t (Value v) = v"
| "resolve t ServerTimestamp = JTimestamp t"

definition written :: "int \<Rightarrow> (jsstring \<times> field_value) list \<Rightarrow> doc" where
  "written t fs = map_of (map (\<lambda>(k, v). (k, resolve t v)) fs)"

text \<open>
  \<^verbatim>\<open>db.collection(c).doc(id).get()\<close>: \<^verbatim>\<open>doc\<close> throws on an identifier that is not a
  string, before the store is contacted; otherwise the store answers with the document
  (\<open>None\<close> when it does not exist) or rejects the call.
\<close>

definition doc_get :: "jsstring \<Rightarrow> jsval \<Rightarrow> world \<Rightarrow> (exn + doc option) \<times> world" where
  "doc_get c ident w =
     (case ident of
        JStr k \<Rightarrow>
          (if fault_at w (tick w) then Inl Other else Inr (store w (c, k)),
           step [DocGet c k] w)
      | _ \<Rightarrow> (Inl Other, w))"

text \<open>
  \<^verbatim>\<open>update(fields)\<close> merges the fields into an existing document and is rejected when
  there is none; \<^verbatim>\<open>set(fields)\<close> replaces the document. The server puts its time of the
  write in place of every \<^verbatim>\<open>serverTimestamp()\<close> sentinel.
\<close>

definition doc_update ::
    "jsstring \<Rightarrow> jsval \<Rightarrow> (jsstring \<times> field_value) list \<Rightarrow> world \<Rightarrow> (exn + unit) \<times> world" where
  "doc_update c ident fs w =
     (case ident of
        JStr k \<Rightarrow>
          (case store w (c, k) of
             Some d \<Rightarrow>
               if fault_at w (tick w) then (Inl Other, step [DocUpdate c k fs] w)
               else (Inr (),
                     step [DocUpdate c k fs]
                       (w\<lparr>store := (store w)((c, k) \<mapsto> d ++ written (time_at w (tick w)) fs)\<rparr>))
           | None \<Rightarrow> (Inl Other, step [DocUpdate c k fs] w))
      | _ \<Rightarrow> (Inl Other, w))"

definition doc_set ::
    "jsstring \<Rightarrow> jsval \<Rightarrow> (jsstring \<times> field_value) list \<Rightarrow> world \<Rightarrow> (exn + unit) \<times> world" where
  "doc_set c ident fs w =
     (case ident of
        JStr k \<Rightarrow>
          if fault_at w (tick w) then (Inl Other, step [DocSet c k fs] w)
          else (Inr (),
                step [DocSet c k fs]
                  (w\<lparr>store := (store w)((c, k) \<mapsto> written (time_at w (tick w)) fs)\<rparr>))
      | _ \<Rightarrow> (Inl Other, w))"

text \<open>\<^verbatim>\<open>streamClient.user.create(u)\<close> and \<^verbatim>\<open>streamClient.generateCallToken(userId)\<close>.\<close>

definition stream_user_create :: "jsval \<Rightarrow> world \<Rightarrow> (exn + unit) \<times> world" where
  "stream_user_create u w =
     (if fault_at w (tick w) then Inl Other else Inr (), step [StreamUserCreate u] w)"

definition generateCallToken :: "jsstring \<Rightarrow> world \<Rightarrow> (exn + jsstring) \<times> world" where
  "generateCallToken userId w =
     (if fault_at w (tick w) then Inl Other else Inr (mint w userId),
      step [GenerateCallToken userId] w)"

text \<open>
  \<^verbatim>\<open>Array.prototype.join\<close> converts every element but \<^verbatim>\<open>null\<close> and \<^verbatim>\<open>undefined\<close> to a
  string. For a plain object that is \<^verbatim>\<open>Object.prototype.toString\<close>, unless the object
  has a property \<^verbatim>\<open>toString\<close> of its own: a decoded JSON value is never callable, and
  the conversion throws a \<^verbatim>\<open>TypeError\<close>. An array element is joined in turn.
\<close>

fun join_throws :: "jsval \<Rightarrow> bool" where
  "join_throws (JObj fs) = (lit ''toString'' \<in> fst ` set fs)"
| "join_throws (JArr xs) = (\<exists>x\<in>set xs. join_throws x)"
| "join_throws v = False"

section \<open>The request\<close>

text \<open>
  \<^verbatim>\<open>request.auth\<close> is absent on an unauthenticated call and otherwise carries the
  verified \<^verbatim>\<open>uid\<close>; \<^verbatim>\<open>request.data\<close> is whatever the client sent.
\<close>

record request =
  auth :: "jsstring option"
  data :: jsval

section \<open>generateStreamToken\<close>

definition generateStreamToken :: "request \<Rightarrow> world \<Rightarrow> (https_error + jsval) \<times> world" where
  "generateStreamToken request w =
     (case auth request of
        None \<Rightarrow>
          (Inl (HttpsError Unauthenticated
                  (lit ''User must be authenticated to generate a Stream token.'')), w)
      | Some userId \<Rightarrow>
          (case generateCallToken userId w of
             (Inl e, w1) \<Rightarrow>
               (Inl (HttpsError Internal (lit ''Unable to generate Stream token.'')), w1)
           | (Inr token, w1) \<Rightarrow>
               (let (t1, w2) = date_now w1;
                    (t2, w3) = date_now w2
                in (Inr (JObj [(lit ''token'', JStr token),
                               (lit ''expiresAt'', JNum (t1 + 24 * 60 * 60 * 1000)),
                               (lit ''generated'', JStr (toISOString t2))]),
                    w3))))"

section \<open>createUser\<close>

text \<open>The three validations of the source (lines 74, 81 and 88), on the value of the field.\<close>

definition bad_uid :: "jsval \<Rightarrow> bool" where
  "bad_uid v = (\<not> truthy v \<or> typeof v \<noteq> lit ''string'' \<or> trim (str v) = [])"

definition bad_displayName :: "jsval \<Rightarrow> bool" where
  "bad_displayName v = (\<not> truthy v \<or> typeof v \<noteq> lit ''string'' \<or> trim (str v) = [])"

definition bad_email :: "jsval \<Rightarrow> bool" where
  "bad_email v = (\<not> truthy v \<or> typeof v \<noteq> lit ''string'' \<or> \<not> str_includes (str v) (lit ''@''))"

text \<open>The \<^verbatim>\<open>try\<close> block of \<^verbatim>\<open>createUser\<close> (lines 96 to 136).\<close>

definition createUser_try :: "jsval \<Rightarrow> world \<Rightarrow> (exn + jsval) \<times> world" where
  "createUser_try user w =
     (let uid = js_member user (lit ''uid'');
          displayName = js_member user (lit ''displayName'');
          email = js_member user (lit ''email'');
          photoURL = js_member user (lit ''photoURL'')
      in case doc_get (lit ''users_'') uid w of
           (Inl e, w1) \<Rightarrow> (Inl e, w1)
         | (Inr userDoc, w1) \<Rightarrow>
             if userDoc \<noteq> None then
               (case doc_update (lit ''users_'') uid
                       [(lit ''displayName'', Value displayName),
                        (lit ''email'', Value email),
                        (lit ''photoURL'', Value (js_or photoURL JNull)),
                        (lit ''updatedAt'', ServerTimestamp)] w1 of
                  (Inl e, w2) \<Rightarrow> (Inl e, w2)
                | (Inr u, w2) \<Rightarrow>
                    (Inr (JObj [(lit ''result'',
                                 JStr (lit ''User with UID '' @ str uid @ lit '' updated successfully.'')),
                                (lit ''updated'', JBool True)]),
                     w2))
             else
               (case doc_set (lit ''users_'') uid
                       [(lit ''displayName'', Value displayName),
                        (lit ''email'', Value email),
                        (lit ''photoURL'', Value (js_or photoURL JNull)),
                        (lit ''createdAt'', ServerTimestamp),
                        (lit ''updatedAt'', ServerTimestamp)] w1 of
                  (Inl e, w2) \<Rightarrow> (Inl e, w2)
                | (Inr u, w2) \<Rightarrow>
                    (let (r, w3) = stream_user_create
                                     (JObj [(lit ''id'', uid),
                                            (lit ''name'', displayName),
                                            (lit ''image'', photoURL)]) w2
                     in (Inr (JObj [(lit ''result'',
                                     JStr (lit ''User with UID '' @ str uid @ lit '' created successfully.'')),
                                    (lit ''created'', JBool True)]),
                         w3))))"

definition createUser :: "request \<Rightarrow> world \<Rightarrow> (https_error + jsval) \<times> world" where
  "createUser request w =
     (let user = data request
      in if nullish user then (Inl uncaught, w)
         else if bad_uid (js_member user (lit ''uid'')) then
           (Inl (HttpsError InvalidArgument
                   (lit ''The function must be called with a valid uid.'')), w)
         else if bad_displayName (js_member user (lit ''displayName'')) then
           (Inl (HttpsError InvalidArgument
                   (lit ''The function must be called with a valid displayName.'')), w)
         else if bad_email (js_member user (lit ''email'')) then
           (Inl (HttpsError InvalidArgument
                   (lit ''The function must be called with a valid email.'')), w)
         else
           (case createUser_try user w of
              (Inl e, w') \<Rightarrow> (Inl (HttpsError Internal (lit ''Failed to create user.'')), w')
            | (Inr r, w') \<Rightarrow> (Inr r, w')))"

section \<open>getUserProfile\<close>

text \<open>The first \<^verbatim>\<open>try\<close> block (lines 169 to 180): is the caller an admin?\<close>

definition check_admin :: "jsstring \<Rightarrow> world \<Rightarrow> (exn + unit) \<times> world" where
  "check_admin uid w =
     (case doc_get (lit ''users_'') (JStr uid) w of
        (Inl e, w1) \<Rightarrow> (Inl e, w1)
      | (Inr userDoc, w1) \<Rightarrow>
          (case userDoc of
             None \<Rightarrow>
               (Inl (Https (HttpsError PermissionDenied
                              (lit ''Only admins can access other user profiles.''))), w1)
           | Some userData \<Rightarrow>
               if doc_field userData (lit ''role'') \<noteq> JStr (lit ''admin'') then
                 (Inl (Https (HttpsError PermissionDenied
                                (lit ''Only admins can access other user profiles.''))), w1)
               else (Inr (), w1)))"

text \<open>
  \<^verbatim>\<open>v?.toDate?.()\<close>: a Firestore timestamp converts to a date; a stored map with a
  \<^verbatim>\<open>toDate\<close> entry makes the call throw (the entry is not a function).
\<close>

fun opt_toDate :: "jsval \<Rightarrow> exn + jsval" where
  "opt_toDate (JTimestamp t) = Inr (JDate t)"
| "opt_toDate (JObj fs) =
     (if nullish (js_member (JObj fs) (lit ''toDate'')) then Inr JUndefined else Inl Other)"
| "opt_toDate v = Inr JUndefined"

text \<open>The second \<^verbatim>\<open>try\<close> block (lines 191 to 208): fetch the profile of \<open>userId\<close>.\<close>

definition fetch_profile :: "jsval \<Rightarrow> world \<Rightarrow> (exn + jsval) \<times> world" where
  "fetch_profile userId w =
     (case doc_get (lit ''users_'') userId w of
        (Inl e, w1) \<Rightarrow> (Inl e, w1)
      | (Inr userDoc, w1) \<Rightarrow>
          (case userDoc of
             None \<Rightarrow>
               (Inl (Https (HttpsError NotFound
                              (lit ''User with ID '' @ str userId @ lit '' not found.''))), w1)
           | Some userData \<Rightarrow>
               (case opt_toDate (doc_field userData (lit ''createdAt'')) of
                  Inl e \<Rightarrow> (Inl e, w1)
                | Inr created \<Rightarrow>
                    (Inr (JObj [(lit ''uid'', userId),
                                (lit ''displayName'', doc_field userData (lit ''displayName'')),
                                (lit ''email'', doc_field userData (lit ''email'')),
                                (lit ''photoURL'', doc_field userData (lit ''photoURL'')),
                                (lit ''createdAt'', js_or created JNull)]),
                     w1))))"

definition getUserProfile :: "request \<Rightarrow> world \<Rightarrow> (https_error + jsval) \<times> world" where
  "getUserProfile request w =
     (case auth request of
        None \<Rightarrow>
          (Inl (HttpsError Unauthenticated
                  (lit ''User must be authenticated to access profiles.'')), w)
      | Some uid \<Rightarrow>
          (let target = opt_member (data request) (lit ''userId'');
               fetch = (\<lambda>userId w1.
                  case fetch_profile userId w1 of
                    (Inl e, w2) \<Rightarrow>
                      (Inl (HttpsError Internal (lit ''Failed to fetch user profile.'')), w2)
                  | (Inr r, w2) \<Rightarrow> (Inr r, w2))
           in if truthy target \<and> target \<noteq> JStr uid then
                (case check_admin uid w of
                   (Inl e, w1) \<Rightarrow>
                     (Inl (HttpsError PermissionDenied (lit ''Failed to verify permissions.'')), w1)
                 | (Inr u, w1) \<Rightarrow> fetch target w1)
              else fetch (JStr uid) w))"

section \<open>createVideoSession\<close>

text \<open>
  The \<^verbatim>\<open>try\<close> block (lines 251 to 267), with the participants as they are after the
  caller has been pushed.
\<close>

definition createVideoSession_try :: "jsstring \<Rightarrow> jsval list \<Rightarrow> world \<Rightarrow> (exn + jsval) \<times> world" where
  "createVideoSession_try uid participants w =
     (let (t, w1) = date_now w;
          (r, w2) = random36 w1;
          sessionId = lit ''session-'' @ show_int t @ lit ''-'' @ r
      in if join_throws (JArr participants) then (Inl Other, w2)
         else
           (case doc_set (lit ''videoSessions'') (JStr sessionId)
                   [(lit ''createdBy'', Value (JStr uid)),
                    (lit ''participants'', Value (JArr participants)),
                    (lit ''createdAt'', ServerTimestamp),
                    (lit ''status'', Value (JStr (lit ''active'')))] w2 of
              (Inl e, w3) \<Rightarrow> (Inl e, w3)
            | (Inr u, w3) \<Rightarrow>
                (let (t', w4) = date_now w3
                 in (Inr (JObj [(lit ''sessionId'', JStr sessionId),
                                (lit ''createdAt'', JStr (toISOString t')),
                                (lit ''participants'', JArr participants)]),
                     w4))))"

definition createVideoSession :: "request \<Rightarrow> world \<Rightarrow> (https_error + jsval) \<times> world" where
  "createVideoSession request w =
     (case auth request of
        None \<Rightarrow>
          (Inl (HttpsError Unauthenticated
                  (lit ''User must be authenticated to create video sessions.'')), w)
      | Some uid \<Rightarrow>
          (let participants = js_member (js_or (data request) (JObj [])) (lit ''participants'')
           in if \<not> truthy participants \<or> \<not> isArray participants \<or> length (elems participants) < 1 then
                (Inl (HttpsError InvalidArgument
                        (lit ''Must provide an array of participant user IDs.'')), w)
              else
                (let pushed = (if JStr uid \<in> set (elems participants) then elems participants
                               else elems participants @ [JStr uid])
                 in case createVideoSession_try uid pushed w of
                      (Inl e, w') \<Rightarrow>
                        (Inl (HttpsError Internal (lit ''Failed to create video session.'')), w')
                    | (Inr r, w') \<Rightarrow> (Inr r, w'))))"

section \<open>Worlds and requests to run the handlers on\<close>

text \<open>A world with an empty store in which no call is rejected.\<close>

definition empty_world :: world where
  "empty_world =
     \<lparr>store = Map.empty, tick = 0, fault_at = (\<lambda>n. False),
      time_at = (\<lambda>n. 1700000000000 + int n), random36_at = (\<lambda>n. lit ''k3x9q2a''),
      mint = (\<lambda>u. lit ''jwt.'' @ u), trace = []\<rparr>"

text \<open>
  Two \<^verbatim>\<open>createUser\<close> requests that fail validation: a blank uid, and an email without @;
  and a \<^verbatim>\<open>createUser\<close> call made with no data.
\<close>

definition blank_uid_request :: request where
  "blank_uid_request =
     \<lparr>auth = None,
      data = JObj [(lit ''uid'', JStr (lit '' '')),
                   (lit ''displayName'', JStr (lit ''Ann'')),
                   (lit ''email'', JStr (lit ''ann.example.org''))]\<rparr>"

definition bad_email_request :: request where
  "bad_email_request =
     \<lparr>auth = None,
      data = JObj [(lit ''uid'', JStr (lit ''u1'')),
                   (lit ''displayName'', JStr (lit ''Ann'')),
                   (lit ''email'', JStr (lit ''ann.example.org''))]\<rparr>"

definition no_data_request :: request where
  "no_data_request = \<lparr>auth = None, data = JNull\<rparr>"

text \<open>
  A world in which the profile \<open>u1\<close> exists, with a role and a creation time, and a
  request that upserts \<open>u1\<close> with another name and email and no photo.
\<close>

definition ann_profile :: doc where
  "ann_profile =
     [lit ''displayName'' \<mapsto> JStr (lit ''Ann''),
      lit ''email'' \<mapsto> JStr (lit ''ann@example.org''),
      lit ''photoURL'' \<mapsto> JStr (lit ''https://example.org/ann.png''),
      lit ''createdAt'' \<mapsto> JTimestamp 1600000000000,
      lit ''updatedAt'' \<mapsto> JTimestamp 1600000000000,
      lit ''role'' \<mapsto> JStr (lit ''admin'')]"

definition world_with_ann :: world where
  "world_with_ann = empty_world\<lparr>store := [(lit ''users_'', lit ''u1'') \<mapsto> ann_profile]\<rparr>"

definition rename_request :: request where
  "rename_request =
     \<lparr>auth = None,
      data = JObj [(lit ''uid'', JStr (lit ''u1'')),
                   (lit ''displayName'', JStr (lit ''Ann B'')),
                   (lit ''email'', JStr (lit ''annb@example.org''))]\<rparr>"

definition new_user_request :: request where
  "new_user_request =
     \<lparr>auth = None,
      data = JObj [(lit ''uid'', JStr (lit ''u2'')),
                   (lit ''displayName'', JStr (lit ''Bob'')),
                   (lit ''email'', JStr (lit ''bob@example.org''))]\<rparr>"

text \<open>A request for a profile that does not exist yet, and the world \<open>world_with_ann\<close> with
  the third call to the outside (the Stream call of that request) rejected.\<close>

definition stream_down_world :: world where
  "stream_down_world = world_with_ann\<lparr>fault_at := (fault_at world_with_ann)(2 := True)\<rparr>"

text \<open>
  Requests to \<open>getUserProfile\<close>: \<open>u3\<close>, who has no profile, reads \<open>u1\<close>; \<open>u3\<close> reads
  their own profile; the admin \<open>u1\<close> reads \<open>u9\<close>, who has no profile.
\<close>

definition stranger_reads_ann :: request where
  "stranger_reads_ann = \<lparr>auth = Some (lit ''u3''), data = JObj [(lit ''userId'', JStr (lit ''u1''))]\<rparr>"

definition stranger_reads_self :: request where
  "stranger_reads_self = \<lparr>auth = Some (lit ''u3''), data = JNull\<rparr>"

definition admin_reads_missing :: request where
  "admin_reads_missing = \<lparr>auth = Some (lit ''u1''), data = JObj [(lit ''userId'', JStr (lit ''u9''))]\<rparr>"

text \<open>The world \<open>world_with_ann\<close> with the first call to the outside rejected.\<close>

definition store_down_world :: world where
  "store_down_world = world_with_ann\<lparr>fault_at := (fault_at world_with_ann)(0 := True)\<rparr>"

text \<open>The session identifier \<open>createVideoSession\<close> generates when it starts in world \<open>w\<close>.\<close>

definition session_id :: "world \<Rightarrow> jsstring" where
  "session_id w = lit ''session-'' @ show_int (time_at w (tick w)) @ lit ''-'' @ random36_at w (Suc (tick w))"

text \<open>
  Requests to \<open>createVideoSession\<close>: caller \<open>a\<close> with participants \<open>b\<close> and \<open>c\<close>, and caller
  \<open>b\<close> with participants \<open>b\<close> and \<open>b\<close>.
\<close>

definition abc_request :: request where
  "abc_request =
     \<lparr>auth = Some (lit ''a''),
      data = JObj [(lit ''participants'', JArr [JStr (lit ''b''), JStr (lit ''c'')])]\<rparr>"

definition bb_request :: request where
  "bb_request =
     \<lparr>auth = Some (lit ''b''),
      data = JObj [(lit ''participants'', JArr [JStr (lit ''b''), JStr (lit ''b'')])]\<rparr>"

text \<open>An authenticated request for a token.\<close>

definition token_request :: request where
  "token_request = \<lparr>auth = Some (lit ''a''), data = JNull\<rparr>"

section \<open>Basic facts\<close>

lemma lit_eq_iff [simp]: "lit a = lit b \<longleftrightarrow> a = b"
  unfolding lit_def by (simp add: inj_map_eq_map inj_on_def)

lemma lit_eq_Nil [simp]: "lit s = [] \<longleftrightarrow> s = []"
  by (simp add: lit_def)

lemma all_dropWhile: "(\<forall>x\<in>set (dropWhile P s). P x) \<longleftrightarrow> (\<forall>x\<in>set s. P x)"
  by (induction s) auto

text \<open>A string trims to the empty string exactly when it consists of white space.\<close>

lemma trim_empty_iff: "trim s = [] \<longleftrightarrow> (\<forall>c\<in>set s. isWhiteSpace c)"
  by (simp add: trim_def dropWhile_eq_Nil_conv all_dropWhile)

text \<open>A string includes a one-character string exactly when the character occurs in it.\<close>

lemma str_includes_single: "str_includes s [c] \<longleftrightarrow> c \<in> set s"
  by (induction s) auto

text \<open>
  The three validations, by the values they let through: a string that does not trim to
  the empty string (uid, display name), a string that holds an @ (email). Every other
  value is rejected: \<^verbatim>\<open>undefined\<close>, \<^verbatim>\<open>null\<close>, numbers, booleans, arrays, objects.
\<close>

lemma trim_Nil: "trim [] = []"
  by (simp add: trim_def)

lemma bad_uid_iff: "bad_uid v \<longleftrightarrow> \<not> (\<exists>s. v = JStr s \<and> trim s \<noteq> [])"
  by (cases v) (auto simp: bad_uid_def trim_Nil)

lemma bad_displayName_iff: "bad_displayName v \<longleftrightarrow> \<not> (\<exists>s. v = JStr s \<and> trim s \<noteq> [])"
  by (cases v) (auto simp: bad_displayName_def trim_Nil)

lemma bad_email_iff: "bad_email v \<longleftrightarrow> \<not> (\<exists>s. v = JStr s \<and> str_includes s (lit ''@''))"
  by (cases v) (auto simp: bad_email_def)

subsection \<open>Validation in createUser\<close>

lemma createUser_invalid_uid:
  "\<not> nullish (data request) \<Longrightarrow> bad_uid (js_member (data request) (lit ''uid'')) \<Longrightarrow>
   createUser request w =
     (Inl (HttpsError InvalidArgument (lit ''The function must be called with a valid uid.'')), w)"
  by (simp add: createUser_def)

lemma createUser_invalid_displayName:
  "\<not> nullish (data request) \<Longrightarrow> \<not> bad_uid (js_member (data request) (lit ''uid'')) \<Longrightarrow>
   bad_displayName (js_member (data request) (lit ''displayName'')) \<Longrightarrow>
   createUser request w =
     (Inl (HttpsError InvalidArgument (lit ''The function must be called with a valid displayName.'')), w)"
  by (simp add: createUser_def)

lemma createUser_invalid_email:
  "\<not> nullish (data request) \<Longrightarrow> \<not> bad_uid (js_member (data request) (lit ''uid'')) \<Longrightarrow>
   \<not> bad_displayName (js_member (data request) (lit ''displayName'')) \<Longrightarrow>
   bad_email (js_member (data request) (lit ''email'')) \<Longrightarrow>
   createUser request w =
     (Inl (HttpsError InvalidArgument (lit ''The function must be called with a valid email.'')), w)"
  by (simp add: createUser_def)

lemma createUser_invalid_any:
  assumes "\<not> nullish (data request)"
    and "bad_uid (js_member (data request) (lit ''uid''))
         \<or> bad_displayName (js_member (data request) (lit ''displayName''))
         \<or> bad_email (js_member (data request) (lit ''email''))"
  shows "failure_kind (fst (createUser request w)) = Some InvalidArgument
         \<and> snd (createUser request w) = w"
proof (cases "bad_uid (js_member (data request) (lit ''uid''))")
  case True
  with assms(1) show ?thesis
    by (simp add: createUser_invalid_uid failure_kind_def)
next
  case uid_ok: False
  show ?thesis
  proof (cases "bad_displayName (js_member (data request) (lit ''displayName''))")
    case True
    with assms(1) uid_ok show ?thesis
      by (simp add: createUser_invalid_displayName failure_kind_def)
  next
    case False
    with assms uid_ok show ?thesis
      by (simp add: createUser_invalid_email failure_kind_def)
  qed
qed

lemma trim_blank: "trim (lit '' '') = []"
  by (simp add: trim_def lit_def isWhiteSpace_def)

lemma good_uid_u1: "\<not> bad_uid (JStr (lit ''u1''))"
  by (simp add: bad_uid_def trim_def lit_def isWhiteSpace_def)

lemma good_displayName_Ann: "\<not> bad_displayName (JStr (lit ''Ann''))"
  by (simp add: bad_displayName_def trim_def lit_def isWhiteSpace_def)

lemma no_at: "\<not> str_includes (lit ''ann.example.org'') (lit ''@'')"
  by (simp add: lit_def)

lemma createUser_invalid_samples:
  "createUser blank_uid_request empty_world =
     (Inl (HttpsError InvalidArgument (lit ''The function must be called with a valid uid.'')), empty_world)
   \<and> createUser bad_email_request empty_world =
     (Inl (HttpsError InvalidArgument (lit ''The function must be called with a valid email.'')), empty_world)"
proof
  have "\<not> nullish (data blank_uid_request)"
    by (simp add: blank_uid_request_def nullish_def)
  moreover have "bad_uid (js_member (data blank_uid_request) (lit ''uid''))"
    by (simp add: blank_uid_request_def bad_uid_iff trim_blank)
  ultimately show "createUser blank_uid_request empty_world =
     (Inl (HttpsError InvalidArgument (lit ''The function must be called with a valid uid.'')), empty_world)"
    by (rule createUser_invalid_uid)
next
  have "\<not> nullish (data bad_email_request)"
    by (simp add: bad_email_request_def nullish_def)
  moreover have "\<not> bad_uid (js_member (data bad_email_request) (lit ''uid''))"
    by (simp add: bad_email_request_def good_uid_u1)
  moreover have "\<not> bad_displayName (js_member (data bad_email_request) (lit ''displayName''))"
    by (simp add: bad_email_request_def good_displayName_Ann)
  moreover have "bad_email (js_member (data bad_email_request) (lit ''email''))"
    by (simp add: bad_email_request_def bad_email_iff no_at)
  ultimately show "createUser bad_email_request empty_world =
     (Inl (HttpsError InvalidArgument (lit ''The function must be called with a valid email.'')), empty_world)"
    by (rule createUser_invalid_email)
qed

subsection \<open>The branches of createUser\<close>

lemma step_simps [simp]:
  "tick (step es w) = Suc (tick w)"
  "trace (step es w) = trace w @ es"
  "store (step es w) = store w"
  "fault_at (step es w) = fault_at w"
  "time_at (step es w) = time_at w"
  "random36_at (step es w) = random36_at w"
  "mint (step es w) = mint w"
  by (simp_all add: step_def)

lemma createUser_valid:
  assumes "\<not> nullish (data request)"
    and "\<not> bad_uid (js_member (data request) (lit ''uid''))"
    and "\<not> bad_displayName (js_member (data request) (lit ''displayName''))"
    and "\<not> bad_email (js_member (data request) (lit ''email''))"
  shows "createUser request w =
     (case createUser_try (data request) w of
        (Inl e, w') \<Rightarrow> (Inl (HttpsError Internal (lit ''Failed to create user.'')), w')
      | (Inr r, w') \<Rightarrow> (Inr r, w'))"
  using assms by (simp add: createUser_def)

lemma js_member_not_nullish: "js_member v k = JStr s \<Longrightarrow> \<not> nullish v"
  by (cases v) (simp_all add: nullish_def)

lemma update_fields:
  "d ++ written t [(lit ''displayName'', Value a), (lit ''email'', Value b),
                   (lit ''photoURL'', Value c), (lit ''updatedAt'', ServerTimestamp)]
   = d(lit ''displayName'' \<mapsto> a, lit ''email'' \<mapsto> b, lit ''photoURL'' \<mapsto> c,
       lit ''updatedAt'' \<mapsto> JTimestamp t)"
  by (rule ext) (simp add: written_def map_add_def)

lemma create_fields:
  "written t [(lit ''displayName'', Value a), (lit ''email'', Value b),
              (lit ''photoURL'', Value c), (lit ''createdAt'', ServerTimestamp),
              (lit ''updatedAt'', ServerTimestamp)]
   = [lit ''displayName'' \<mapsto> a, lit ''email'' \<mapsto> b, lit ''photoURL'' \<mapsto> c,
      lit ''createdAt'' \<mapsto> JTimestamp t, lit ''updatedAt'' \<mapsto> JTimestamp t]"
  by (rule ext) (simp add: written_def)

text \<open>The update branch: the profile exists, the read and the update are not rejected.\<close>

lemma createUser_try_update:
  assumes "js_member user (lit ''uid'') = JStr k"
    and "store w (lit ''users_'', k) = Some d"
    and "\<not> fault_at w (tick w)"
    and "\<not> fault_at w (Suc (tick w))"
  shows "createUser_try user w =
     (Inr (JObj [(lit ''result'', JStr (lit ''User with UID '' @ k @ lit '' updated successfully.'')),
                 (lit ''updated'', JBool True)]),
      w\<lparr>tick := Suc (Suc (tick w)),
        trace := trace w @
          [DocGet (lit ''users_'') k,
           DocUpdate (lit ''users_'') k
             [(lit ''displayName'', Value (js_member user (lit ''displayName''))),
              (lit ''email'', Value (js_member user (lit ''email''))),
              (lit ''photoURL'', Value (js_or (js_member user (lit ''photoURL'')) JNull)),
              (lit ''updatedAt'', ServerTimestamp)]],
        store := (store w)((lit ''users_'', k) \<mapsto>
          d(lit ''displayName'' \<mapsto> js_member user (lit ''displayName''),
            lit ''email'' \<mapsto> js_member user (lit ''email''),
            lit ''photoURL'' \<mapsto> js_or (js_member user (lit ''photoURL'')) JNull,
            lit ''updatedAt'' \<mapsto> JTimestamp (time_at w (Suc (tick w)))))\<rparr>)"
  using assms
  by (simp add: createUser_try_def doc_get_def doc_update_def step_def Let_def update_fields)

text \<open>The create branch: no profile yet, the read and the write are not rejected.\<close>

lemma createUser_try_create:
  assumes "js_member user (lit ''uid'') = JStr k"
    and "store w (lit ''users_'', k) = None"
    and "\<not> fault_at w (tick w)"
    and "\<not> fault_at w (Suc (tick w))"
  shows "createUser_try user w =
     (Inr (JObj [(lit ''result'', JStr (lit ''User with UID '' @ k @ lit '' created successfully.'')),
                 (lit ''created'', JBool True)]),
      w\<lparr>tick := Suc (Suc (Suc (tick w))),
        trace := trace w @
          [DocGet (lit ''users_'') k,
           DocSet (lit ''users_'') k
             [(lit ''displayName'', Value (js_member user (lit ''displayName''))),
              (lit ''email'', Value (js_member user (lit ''email''))),
              (lit ''photoURL'', Value (js_or (js_member user (lit ''photoURL'')) JNull)),
              (lit ''createdAt'', ServerTimestamp),
              (lit ''updatedAt'', ServerTimestamp)],
           StreamUserCreate
             (JObj [(lit ''id'', JStr k),
                    (lit ''name'', js_member user (lit ''displayName'')),
                    (lit ''image'', js_member user (lit ''photoURL''))])],
        store := (store w)((lit ''users_'', k) \<mapsto>
          [lit ''displayName'' \<mapsto> js_member user (lit ''displayName''),
           lit ''email'' \<mapsto> js_member user (lit ''email''),
           lit ''photoURL'' \<mapsto> js_or (js_member user (lit ''photoURL'')) JNull,
           lit ''createdAt'' \<mapsto> JTimestamp (time_at w (Suc (tick w))),
           lit ''updatedAt'' \<mapsto> JTimestamp (time_at w (Suc (tick w)))])\<rparr>)"
  using assms
  by (simp add: createUser_try_def doc_get_def doc_set_def stream_user_create_def step_def
      Let_def create_fields)

lemma createUser_frame:
  assumes "js_member (data request) (lit ''uid'') = JStr k"
    and "store w (lit ''users_'', k) = Some d"
  shows "\<exists>d'. store (snd (createUser request w)) (lit ''users_'', k) = Some d'
           \<and> (\<forall>f. f \<notin> {lit ''displayName'', lit ''email'', lit ''photoURL'', lit ''updatedAt''}
                  \<longrightarrow> d' f = d f)"
    and "\<forall>key. key \<noteq> (lit ''users_'', k) \<longrightarrow> store (snd (createUser request w)) key = store w key"
  using assms
  by (auto simp: createUser_def createUser_try_def doc_get_def doc_update_def Let_def update_fields)

lemma createUser_update:
  assumes "js_member (data request) (lit ''uid'') = JStr k"
    and "store w (lit ''users_'', k) = Some d"
    and "\<not> bad_uid (JStr k)"
    and "\<not> bad_displayName (js_member (data request) (lit ''displayName''))"
    and "\<not> bad_email (js_member (data request) (lit ''email''))"
    and "\<not> fault_at w (tick w)"
    and "\<not> fault_at w (Suc (tick w))"
  shows "createUser request w =
     (Inr (JObj [(lit ''result'', JStr (lit ''User with UID '' @ k @ lit '' updated successfully.'')),
                 (lit ''updated'', JBool True)]),
      w\<lparr>tick := Suc (Suc (tick w)),
        trace := trace w @
          [DocGet (lit ''users_'') k,
           DocUpdate (lit ''users_'') k
             [(lit ''displayName'', Value (js_member (data request) (lit ''displayName''))),
              (lit ''email'', Value (js_member (data request) (lit ''email''))),
              (lit ''photoURL'', Value (js_or (js_member (data request) (lit ''photoURL'')) JNull)),
              (lit ''updatedAt'', ServerTimestamp)]],
        store := (store w)((lit ''users_'', k) \<mapsto>
          d(lit ''displayName'' \<mapsto> js_member (data request) (lit ''displayName''),
            lit ''email'' \<mapsto> js_member (data request) (lit ''email''),
            lit ''photoURL'' \<mapsto> js_or (js_member (data request) (lit ''photoURL'')) JNull,
            lit ''updatedAt'' \<mapsto> JTimestamp (time_at w (Suc (tick w)))))\<rparr>)"
proof -
  have "\<not> nullish (data request)"
    using assms(1) by (rule js_member_not_nullish)
  with assms show ?thesis
    by (simp add: createUser_valid createUser_try_update)
qed

lemma createUser_create:
  assumes "js_member (data request) (lit ''uid'') = JStr k"
    and "store w (lit ''users_'', k) = None"
    and "\<not> bad_uid (JStr k)"
    and "\<not> bad_displayName (js_member (data request) (lit ''displayName''))"
    and "\<not> bad_email (js_member (data request) (lit ''email''))"
    and "\<not> fault_at w (tick w)"
    and "\<not> fault_at w (Suc (tick w))"
  shows "createUser request w =
     (Inr (JObj [(lit ''result'', JStr (lit ''User with UID '' @ k @ lit '' created successfully.'')),
                 (lit ''created'', JBool True)]),
      w\<lparr>tick := Suc (Suc (Suc (tick w))),
        trace := trace w @
          [DocGet (lit ''users_'') k,
           DocSet (lit ''users_'') k
             [(lit ''displayName'', Value (js_member (data request) (lit ''displayName''))),
              (lit ''email'', Value (js_member (data request) (lit ''email''))),
              (lit ''photoURL'', Value (js_or (js_member (data request) (lit ''photoURL'')) JNull)),
              (lit ''createdAt'', ServerTimestamp),
              (lit ''updatedAt'', ServerTimestamp)],
           StreamUserCreate
             (JObj [(lit ''id'', JStr k),
                    (lit ''name'', js_member (data request) (lit ''displayName'')),
                    (lit ''image'', js_member (data request) (lit ''photoURL''))])],
        store := (store w)((lit ''users_'', k) \<mapsto>
          [lit ''displayName'' \<mapsto> js_member (data request) (lit ''displayName''),
           lit ''email'' \<mapsto> js_member (data request) (lit ''email''),
           lit ''photoURL'' \<mapsto> js_or (js_member (data request) (lit ''photoURL'')) JNull,
           lit ''createdAt'' \<mapsto> JTimestamp (time_at w (Suc (tick w))),
           lit ''updatedAt'' \<mapsto> JTimestamp (time_at w (Suc (tick w)))])\<rparr>)"
proof -
  have "\<not> nullish (data request)"
    using assms(1) by (rule js_member_not_nullish)
  with assms show ?thesis
    by (simp add: createUser_valid createUser_try_create)
qed

subsection \<open>The sample requests and worlds\<close>

lemma good_displayName_Ann_B: "\<not> bad_displayName (JStr (lit ''Ann B''))"
  by (simp add: bad_displayName_def trim_def lit_def isWhiteSpace_def)

lemma good_email_annb: "\<not> bad_email (JStr (lit ''annb@example.org''))"
  by (simp add: bad_email_def lit_def)

lemma rename_request_fields:
  "js_member (data rename_request) (lit ''uid'') = JStr (lit ''u1'')"
  "js_member (data rename_request) (lit ''displayName'') = JStr (lit ''Ann B'')"
  "js_member (data rename_request) (lit ''email'') = JStr (lit ''annb@example.org'')"
  "js_member (data rename_request) (lit ''photoURL'') = JUndefined"
  by (simp_all add: rename_request_def)

lemma world_with_ann_simps:
  "store world_with_ann (lit ''users_'', lit ''u1'') = Some ann_profile"
  "fault_at world_with_ann n = False"
  "tick world_with_ann = 0"
  "trace world_with_ann = []"
  "time_at world_with_ann n = 1700000000000 + int n"
  by (simp_all add: world_with_ann_def empty_world_def)

lemma new_user_request_fields:
  "js_member (data new_user_request) (lit ''uid'') = JStr (lit ''u2'')"
  "js_member (data new_user_request) (lit ''displayName'') = JStr (lit ''Bob'')"
  "js_member (data new_user_request) (lit ''email'') = JStr (lit ''bob@example.org'')"
  "js_member (data new_user_request) (lit ''photoURL'') = JUndefined"
  by (simp_all add: new_user_request_def)

lemma new_user_request_valid:
  "\<not> bad_uid (JStr (lit ''u2''))"
  "\<not> bad_displayName (JStr (lit ''Bob''))"
  "\<not> bad_email (JStr (lit ''bob@example.org''))"
  by (simp_all add: bad_uid_def bad_displayName_def bad_email_def trim_def lit_def isWhiteSpace_def)

lemma world_with_ann_u2: "store world_with_ann (lit ''users_'', lit ''u2'') = None"
  by (simp add: world_with_ann_def empty_world_def)

subsection \<open>The two steps of getUserProfile\<close>

lemma check_admin_denied:
  assumes "fault_at w (tick w)
           \<or> (\<forall>d. store w (lit ''users_'', uid) = Some d \<longrightarrow>
                  doc_field d (lit ''role'') \<noteq> JStr (lit ''admin''))"
  shows "\<exists>e. check_admin uid w = (Inl e, step [DocGet (lit ''users_'') uid] w)"
  using assms
  by (auto simp: check_admin_def doc_get_def split: option.splits)

lemma check_admin_granted:
  assumes "\<not> fault_at w (tick w)"
    and "store w (lit ''users_'', uid) = Some d"
    and "doc_field d (lit ''role'') = JStr (lit ''admin'')"
  shows "check_admin uid w = (Inr (), step [DocGet (lit ''users_'') uid] w)"
  using assms
  by (simp add: check_admin_def doc_get_def)

lemma fetch_profile_missing:
  assumes "\<forall>k. userId = JStr k \<longrightarrow> store w (lit ''users_'', k) = None"
  shows "\<exists>e w'. fetch_profile userId w = (Inl e, w')"
  using assms
  by (cases userId) (auto simp: fetch_profile_def doc_get_def)

lemma profile_requests:
  "auth stranger_reads_ann = Some (lit ''u3'')"
  "opt_member (data stranger_reads_ann) (lit ''userId'') = JStr (lit ''u1'')"
  "auth stranger_reads_self = Some (lit ''u3'')"
  "opt_member (data stranger_reads_self) (lit ''userId'') = JUndefined"
  "auth admin_reads_missing = Some (lit ''u1'')"
  "opt_member (data admin_reads_missing) (lit ''userId'') = JStr (lit ''u9'')"
  by (simp_all add: stranger_reads_ann_def stranger_reads_self_def admin_reads_missing_def
      opt_member_def nullish_def)

lemma world_with_ann_others:
  "store world_with_ann (lit ''users_'', lit ''u3'') = None"
  "store world_with_ann (lit ''users_'', lit ''u9'') = None"
  by (simp_all add: world_with_ann_def empty_world_def)

lemma ann_is_admin: "doc_field ann_profile (lit ''role'') = JStr (lit ''admin'')"
  by (simp add: doc_field_def ann_profile_def)

lemma store_down_world_simps:
  "tick store_down_world = 0"
  "fault_at store_down_world 0"
  by (simp_all add: store_down_world_def world_with_ann_def empty_world_def)

subsection \<open>The steps of createVideoSession\<close>

lemma session_fields:
  "written t [(lit ''createdBy'', Value a), (lit ''participants'', Value b),
              (lit ''createdAt'', ServerTimestamp), (lit ''status'', Value c)]
   = [lit ''createdBy'' \<mapsto> a, lit ''participants'' \<mapsto> b,
      lit ''createdAt'' \<mapsto> JTimestamp t, lit ''status'' \<mapsto> c]"
  by (rule ext) (simp add: written_def)

lemma createVideoSession_try_ok:
  assumes "\<not> join_throws (JArr ps)"
    and "\<not> fault_at w (Suc (Suc (tick w)))"
  shows "createVideoSession_try uid ps w =
     (Inr (JObj [(lit ''sessionId'', JStr (session_id w)),
                 (lit ''createdAt'', JStr (toISOString (time_at w (Suc (Suc (Suc (tick w))))))),
                 (lit ''participants'', JArr ps)]),
      w\<lparr>tick := Suc (Suc (Suc (Suc (tick w)))),
        trace := trace w @
          [DocSet (lit ''videoSessions'') (session_id w)
             [(lit ''createdBy'', Value (JStr uid)),
              (lit ''participants'', Value (JArr ps)),
              (lit ''createdAt'', ServerTimestamp),
              (lit ''status'', Value (JStr (lit ''active'')))]],
        store := (store w)((lit ''videoSessions'', session_id w) \<mapsto>
          [lit ''createdBy'' \<mapsto> JStr uid,
           lit ''participants'' \<mapsto> JArr ps,
           lit ''createdAt'' \<mapsto> JTimestamp (time_at w (Suc (Suc (tick w)))),
           lit ''status'' \<mapsto> JStr (lit ''active'')])\<rparr>)"
  using assms
  by (simp add: createVideoSession_try_def date_now_def random36_def doc_set_def step_def
      session_id_def session_fields Let_def del: join_throws.simps)

lemma createVideoSession_try_fail:
  assumes "join_throws (JArr ps) \<or> fault_at w (Suc (Suc (tick w)))"
  shows "\<exists>e w'. createVideoSession_try uid ps w = (Inl e, w') \<and> store w' = store w"
  using assms
  by (auto simp: createVideoSession_try_def date_now_def random36_def doc_set_def step_def
      Let_def simp del: join_throws.simps)

lemma join_throws_pushed:
  "join_throws (JArr (ps @ [JStr uid])) = join_throws (JArr ps)"
  by simp

lemma createVideoSession_array:
  assumes "auth request = Some uid"
    and "js_member (data request) (lit ''participants'') = JArr ps"
    and "ps \<noteq> []"
  shows "createVideoSession request w =
     (case createVideoSession_try uid (if JStr uid \<in> set ps then ps else ps @ [JStr uid]) w of
        (Inl e, w') \<Rightarrow> (Inl (HttpsError Internal (lit ''Failed to create video session.'')), w')
      | (Inr r, w') \<Rightarrow> (Inr r, w'))"
proof -
  from assms(2) have "truthy (data request)"
    by (cases "data request") simp_all
  with assms show ?thesis
    by (simp add: createVideoSession_def js_or_def Let_def)
qed

text \<open>
  What \<open>createVideoSession\<close> returns and stores, and when it succeeds: \<open>final\<close> is the
  participants after the push.
\<close>

lemma createVideoSession_outcome:
  assumes "auth request = Some uid"
    and "js_member (data request) (lit ''participants'') = JArr ps"
    and "ps \<noteq> []"
    and "final = (if JStr uid \<in> set ps then ps else ps @ [JStr uid])"
  shows "case createVideoSession request w of
           (Inr r, w') \<Rightarrow>
             js_member r (lit ''participants'') = JArr final
             \<and> (\<exists>sid d. js_member r (lit ''sessionId'') = JStr sid
                   \<and> store w' (lit ''videoSessions'', sid) = Some d
                   \<and> d (lit ''participants'') = Some (JArr final))
         | (Inl e, w') \<Rightarrow> code e = Internal \<and> store w' = store w"
    and "\<not> join_throws (JArr ps) \<and> \<not> fault_at w (Suc (Suc (tick w))) \<longrightarrow>
           (\<exists>r w'. createVideoSession request w = (Inr r, w'))"
proof -
  have j: "join_throws (JArr final) = join_throws (JArr ps)"
    using assms(4) join_throws_pushed [of ps uid] by (simp del: join_throws.simps)
  note A = createVideoSession_array [OF assms(1-3), of w, folded assms(4)]
  show "case createVideoSession request w of
           (Inr r, w') \<Rightarrow>
             js_member r (lit ''participants'') = JArr final
             \<and> (\<exists>sid d. js_member r (lit ''sessionId'') = JStr sid
                   \<and> store w' (lit ''videoSessions'', sid) = Some d
                   \<and> d (lit ''participants'') = Some (JArr final))
         | (Inl e, w') \<Rightarrow> code e = Internal \<and> store w' = store w"
  proof (cases "join_throws (JArr final) \<or> fault_at w (Suc (Suc (tick w)))")
    case True
    then obtain e w'' where "createVideoSession_try uid final w = (Inl e, w'')" "store w'' = store w"
      using createVideoSession_try_fail [of final w uid] by blast
    with A show ?thesis by simp
  next
    case False
    then have "\<not> join_throws (JArr final)" "\<not> fault_at w (Suc (Suc (tick w)))" by simp_all
    from createVideoSession_try_ok [OF this, of uid] A show ?thesis
      by simp
  qed
  show "\<not> join_throws (JArr ps) \<and> \<not> fault_at w (Suc (Suc (tick w))) \<longrightarrow>
           (\<exists>r w'. createVideoSession request w = (Inr r, w'))"
  proof
    assume "\<not> join_throws (JArr ps) \<and> \<not> fault_at w (Suc (Suc (tick w)))"
    with j have "\<not> join_throws (JArr final)" "\<not> fault_at w (Suc (Suc (tick w)))" by simp_all
    from createVideoSession_try_ok [OF this, of uid] A
    show "\<exists>r w'. createVideoSession request w = (Inr r, w')"
      by simp
  qed
qed

subsection \<open>Evaluating the renderings\<close>

lemma pad_2: "pad 2 n = [48 + n div 10 mod 10, 48 + n mod 10]"
  unfolding numeral_2_eq_2 by simp

lemma pad_3: "pad 3 n = pad 2 (n div 10) @ [48 + n mod 10]"
  using pad.simps(2) [of 2 n] by simp

lemma pad_4: "pad 4 n = pad 3 (n div 10) @ [48 + n mod 10]"
  using pad.simps(2) [of 3 n] by simp

lemma civil_19675: "civil 19675 = (2023, 11, 14)"
  by code_simp

lemma toISOString_sample_2: "toISOString 1700000000002 = lit ''2023-11-14T22:13:20.002Z''"
  by (simp add: toISOString_def civil_19675 show_year_def pad_2 pad_3 pad_4 lit_def Let_def)

lemma toISOString_sample_3: "toISOString 1700000000003 = lit ''2023-11-14T22:13:20.003Z''"
  by (simp add: toISOString_def civil_19675 show_year_def pad_2 pad_3 pad_4 lit_def Let_def)

lemma empty_world_simps:
  "tick empty_world = 0"
  "fault_at empty_world n = False"
  "time_at empty_world n = 1700000000000 + int n"
  "random36_at empty_world n = lit ''k3x9q2a''"
  "mint empty_world u = lit ''jwt.'' @ u"
  "store empty_world = Map.empty"
  "trace empty_world = []"
  by (simp_all add: empty_world_def)

lemma session_id_empty_world: "session_id empty_world = lit ''session-1700000000000-k3x9q2a''"
  by (simp add: session_id_def empty_world_simps show_int_def lit_def)

lemma session_requests:
  "auth abc_request = Some (lit ''a'')"
  "js_member (data abc_request) (lit ''participants'') = JArr [JStr (lit ''b''), JStr (lit ''c'')]"
  "auth bb_request = Some (lit ''b'')"
  "js_member (data bb_request) (lit ''participants'') = JArr [JStr (lit ''b''), JStr (lit ''b'')]"
  by (simp_all add: abc_request_def bb_request_def)

lemma createVideoSession_abc:
  "fst (createVideoSession abc_request empty_world) =
     Inr (JObj [(lit ''sessionId'', JStr (lit ''session-1700000000000-k3x9q2a'')),
                (lit ''createdAt'', JStr (lit ''2023-11-14T22:13:20.003Z'')),
                (lit ''participants'', JArr [JStr (lit ''b''), JStr (lit ''c''), JStr (lit ''a'')])])"
proof -
  have "\<not> join_throws (JArr [JStr (lit ''b''), JStr (lit ''c''), JStr (lit ''a'')])"
    "\<not> fault_at empty_world (Suc (Suc (tick empty_world)))"
    by (simp_all add: empty_world_simps)
  from createVideoSession_try_ok [OF this, of "lit ''a''"]
    createVideoSession_array [OF session_requests(1,2), of empty_world]
  show ?thesis
    by (simp add: session_id_empty_world empty_world_simps toISOString_sample_3)
qed

subsection \<open>The outcomes of generateStreamToken\<close>

lemma generateStreamToken_ok:
  assumes "auth request = Some uid"
    and "\<not> fault_at w (tick w)"
  shows "generateStreamToken request w =
     (Inr (JObj [(lit ''token'', JStr (mint w uid)),
                 (lit ''expiresAt'', JNum (time_at w (Suc (tick w)) + 86400000)),
                 (lit ''generated'', JStr (toISOString (time_at w (Suc (Suc (tick w))))))]),
      w\<lparr>tick := Suc (Suc (Suc (tick w))), trace := trace w @ [GenerateCallToken uid]\<rparr>)"
  using assms
  by (simp add: generateStreamToken_def generateCallToken_def date_now_def step_def)

lemma generateStreamToken_fail:
  assumes "auth request = None \<or> fault_at w (tick w)"
  shows "\<exists>e w'. generateStreamToken request w = (Inl e, w')"
  using assms
  by (auto simp: generateStreamToken_def generateCallToken_def split: option.splits)

lemma lit_append: "lit a @ lit b = lit (a @ b)"
  by (simp add: lit_def)

lemma generateStreamToken_sample:
  "fst (generateStreamToken token_request empty_world) =
     Inr (JObj [(lit ''token'', JStr (lit ''jwt.a'')),
                (lit ''expiresAt'', JNum 1700086400001),
                (lit ''generated'', JStr (lit ''2023-11-14T22:13:20.002Z''))])"
proof -
  have "auth token_request = Some (lit ''a'')"
    by (simp add: token_request_def)
  moreover have "\<not> fault_at empty_world (tick empty_world)"
    by (simp add: empty_world_simps)
  ultimately show ?thesis
    by (simp add: generateStreamToken_ok empty_world_simps toISOString_sample_2 lit_append)
qed

lemma toISOString_sample_1: "toISOString 1700000000001 = lit ''2023-11-14T22:13:20.001Z''"
  by (simp add: toISOString_def civil_19675 show_year_def pad_2 pad_3 pad_4 lit_def Let_def)

section \<open>Unauthenticated calls\<close>

text \<open>
  Claim C8. A call of \<open>generateStreamToken\<close>, \<open>getUserProfile\<close> or \<open>createVideoSession\<close>
  whose request carries no verified identity fails with \<open>Unauthenticated\<close>, whatever
  the data, and leaves the world as it was: no validation result is reported, no store
  or Stream call is made, no clock is read.
\<close>

theorem unauthenticated_rejected_first:
  assumes "auth request = None"
  shows "failure_kind (fst (generateStreamToken request w)) = Some Unauthenticated
         \<and> snd (generateStreamToken request w) = w
         \<and> failure_kind (fst (getUserProfile request w)) = Some Unauthenticated
         \<and> snd (getUserProfile request w) = w
         \<and> failure_kind (fst (createVideoSession request w)) = Some Unauthenticated
         \<and> snd (createVideoSession request w) = w"
  using assms
  by (simp add: generateStreamToken_def getUserProfile_def createVideoSession_def failure_kind_def)

theorem unauthenticated_rejected_first_witness:
  "failure_kind (fst (generateStreamToken \<lparr>auth = None, data = JNull\<rparr> empty_world)) = Some Unauthenticated
   \<and> snd (generateStreamToken \<lparr>auth = None, data = JNull\<rparr> empty_world) = empty_world
   \<and> failure_kind (fst (getUserProfile \<lparr>auth = None, data = JNull\<rparr> empty_world)) = Some Unauthenticated
   \<and> snd (getUserProfile \<lparr>auth = None, data = JNull\<rparr> empty_world) = empty_world
   \<and> failure_kind (fst (createVideoSession \<lparr>auth = None, data = JNull\<rparr> empty_world)) = Some Unauthenticated
   \<and> snd (createVideoSession \<lparr>auth = None, data = JNull\<rparr> empty_world) = empty_world"
  using unauthenticated_rejected_first [of "\<lparr>auth = None, data = JNull\<rparr>" empty_world]
  by simp

section \<open>Validation of createUser\<close>

text \<open>
  Claim C6 says that a \<open>createUser\<close> call with a missing or blank \<open>uid\<close>, a missing or
  blank \<open>displayName\<close>, or an \<open>email\<close> without @ fails with \<open>InvalidArgument\<close>, the checks
  running in that order, and that the store is neither read nor written. On data whose
  fields can be read the source does so: \<open>createUser_invalid_uid\<close>,
  \<open>createUser_invalid_displayName\<close> and \<open>createUser_invalid_email\<close> give the error of the
  first field that fails, with the world returned as it was, and \<open>bad_uid_iff\<close>,
  \<open>bad_displayName_iff\<close> and \<open>bad_email_iff\<close> say which values fail. A call made with no
  data is different. Its \<open>uid\<close> is missing, but the source reads \<^verbatim>\<open>user.uid\<close> at line 74
  outside every \<^verbatim>\<open>try\<close>, the read throws on \<^verbatim>\<open>null\<close>, and the call fails with
  \<open>Internal\<close>, not \<open>InvalidArgument\<close>. (The other handlers read their data through
  \<^verbatim>\<open>request.data?.userId\<close> and \<^verbatim>\<open>request.data || {}\<close>, which do not throw.)
\<close>

theorem createUser_without_data_is_internal:
  assumes "nullish (data request)"
  shows "js_member (data request) (lit ''uid'') = JUndefined
         \<and> createUser request w = (Inl (HttpsError Internal (lit ''INTERNAL'')), w)
         \<and> failure_kind (fst (createUser request w)) = Some Internal
         \<and> failure_kind (fst (createUser request w)) \<noteq> Some InvalidArgument"
proof -
  from assms have "js_member (data request) (lit ''uid'') = JUndefined"
    by (auto simp: nullish_def)
  moreover from assms
  have "createUser request w = (Inl (HttpsError Internal (lit ''INTERNAL'')), w)"
    by (simp add: createUser_def uncaught_def)
  ultimately show ?thesis
    by (simp add: failure_kind_def)
qed

theorem createUser_without_data_is_internal_witness:
  "js_member (data no_data_request) (lit ''uid'') = JUndefined
   \<and> createUser no_data_request empty_world =
       (Inl (HttpsError Internal (lit ''INTERNAL'')), empty_world)
   \<and> failure_kind (fst (createUser no_data_request empty_world)) = Some Internal
   \<and> failure_kind (fst (createUser no_data_request empty_world)) \<noteq> Some InvalidArgument"
proof -
  have "nullish (data no_data_request)"
    by (simp add: no_data_request_def nullish_def)
  then show ?thesis
    by (rule createUser_without_data_is_internal)
qed

section \<open>Upsert of an existing profile\<close>

text \<open>
  Claim C5. When \<open>createUser\<close> is called for an identifier whose profile exists, the
  stored profile changes in no field other than \<open>displayName\<close>, \<open>email\<close>, \<open>photoURL\<close> and
  \<open>updatedAt\<close>: \<open>createdAt\<close>, \<open>role\<close> and every other field keep their values, and no
  other document changes. This holds for every such call, whatever its outcome. When the
  call passes validation and the store accepts the read and the update, the handler
  returns \<open>updated = true\<close> and the four fields hold the display name and email of the
  request, its photo URL (\<open>null\<close> when the request has none) and the server's time of
  the write.
\<close>

theorem createUser_update_overwrites_profile_fields_only:
  assumes "js_member (data request) (lit ''uid'') = JStr k"
    and "store w (lit ''users_'', k) = Some d"
  shows
    "(\<exists>d'. store (snd (createUser request w)) (lit ''users_'', k) = Some d'
        \<and> d' (lit ''createdAt'') = d (lit ''createdAt'')
        \<and> d' (lit ''role'') = d (lit ''role'')
        \<and> (\<forall>f. f \<notin> {lit ''displayName'', lit ''email'', lit ''photoURL'', lit ''updatedAt''}
               \<longrightarrow> d' f = d f))
     \<and> (\<forall>key. key \<noteq> (lit ''users_'', k) \<longrightarrow> store (snd (createUser request w)) key = store w key)
     \<and> (\<not> bad_uid (JStr k)
          \<and> \<not> bad_displayName (js_member (data request) (lit ''displayName''))
          \<and> \<not> bad_email (js_member (data request) (lit ''email''))
          \<and> \<not> fault_at w (tick w) \<and> \<not> fault_at w (Suc (tick w)) \<longrightarrow>
        fst (createUser request w) =
          Inr (JObj [(lit ''result'',
                      JStr (lit ''User with UID '' @ k @ lit '' updated successfully.'')),
                     (lit ''updated'', JBool True)])
        \<and> store (snd (createUser request w)) (lit ''users_'', k) =
            Some (d(lit ''displayName'' \<mapsto> js_member (data request) (lit ''displayName''),
                    lit ''email'' \<mapsto> js_member (data request) (lit ''email''),
                    lit ''photoURL'' \<mapsto>
                      (if truthy (js_member (data request) (lit ''photoURL''))
                       then js_member (data request) (lit ''photoURL'') else JNull),
                    lit ''updatedAt'' \<mapsto> JTimestamp (time_at w (Suc (tick w))))))"
proof (intro conjI impI)
  from createUser_frame(1) [OF assms]
  obtain d' where d': "store (snd (createUser request w)) (lit ''users_'', k) = Some d'"
    and frame: "\<forall>f. f \<notin> {lit ''displayName'', lit ''email'', lit ''photoURL'', lit ''updatedAt''}
                  \<longrightarrow> d' f = d f"
    by blast
  from frame have "d' (lit ''createdAt'') = d (lit ''createdAt'')"
    and "d' (lit ''role'') = d (lit ''role'')"
    by simp_all
  with d' frame
  show "\<exists>d'. store (snd (createUser request w)) (lit ''users_'', k) = Some d'
        \<and> d' (lit ''createdAt'') = d (lit ''createdAt'')
        \<and> d' (lit ''role'') = d (lit ''role'')
        \<and> (\<forall>f. f \<notin> {lit ''displayName'', lit ''email'', lit ''photoURL'', lit ''updatedAt''}
               \<longrightarrow> d' f = d f)"
    by blast
next
  show "\<forall>key. key \<noteq> (lit ''users_'', k) \<longrightarrow> store (snd (createUser request w)) key = store w key"
    by (rule createUser_frame(2) [OF assms])
next
  assume ok: "\<not> bad_uid (JStr k)
          \<and> \<not> bad_displayName (js_member (data request) (lit ''displayName''))
          \<and> \<not> bad_email (js_member (data request) (lit ''email''))
          \<and> \<not> fault_at w (tick w) \<and> \<not> fault_at w (Suc (tick w))"
  with assms show "fst (createUser request w) =
          Inr (JObj [(lit ''result'',
                      JStr (lit ''User with UID '' @ k @ lit '' updated successfully.'')),
                     (lit ''updated'', JBool True)])"
    by (simp add: createUser_update)
  from ok assms show "store (snd (createUser request w)) (lit ''users_'', k) =
            Some (d(lit ''displayName'' \<mapsto> js_member (data request) (lit ''displayName''),
                    lit ''email'' \<mapsto> js_member (data request) (lit ''email''),
                    lit ''photoURL'' \<mapsto>
                      (if truthy (js_member (data request) (lit ''photoURL''))
                       then js_member (data request) (lit ''photoURL'') else JNull),
                    lit ''updatedAt'' \<mapsto> JTimestamp (time_at w (Suc (tick w)))))"
    by (simp add: createUser_update js_or_def)
qed

theorem createUser_update_overwrites_profile_fields_only_witness:
  "fst (createUser rename_request world_with_ann) =
     Inr (JObj [(lit ''result'', JStr (lit ''User with UID u1 updated successfully.'')),
                (lit ''updated'', JBool True)])
   \<and> store (snd (createUser rename_request world_with_ann)) (lit ''users_'', lit ''u1'') =
       Some [lit ''displayName'' \<mapsto> JStr (lit ''Ann B''),
             lit ''email'' \<mapsto> JStr (lit ''annb@example.org''),
             lit ''photoURL'' \<mapsto> JNull,
             lit ''createdAt'' \<mapsto> JTimestamp 1600000000000,
             lit ''updatedAt'' \<mapsto> JTimestamp 1700000000001,
             lit ''role'' \<mapsto> JStr (lit ''admin'')]"
proof -
  note T = createUser_update_overwrites_profile_fields_only
    [OF rename_request_fields(1) world_with_ann_simps(1)]
  have ok: "\<not> bad_uid (JStr (lit ''u1''))
      \<and> \<not> bad_displayName (js_member (data rename_request) (lit ''displayName''))
      \<and> \<not> bad_email (js_member (data rename_request) (lit ''email''))
      \<and> \<not> fault_at world_with_ann (tick world_with_ann)
      \<and> \<not> fault_at world_with_ann (Suc (tick world_with_ann))"
    by (simp add: rename_request_fields world_with_ann_simps good_uid_u1 good_displayName_Ann_B
        good_email_annb)
  from T ok have r: "fst (createUser rename_request world_with_ann) =
          Inr (JObj [(lit ''result'',
                      JStr (lit ''User with UID '' @ lit ''u1'' @ lit '' updated successfully.'')),
                     (lit ''updated'', JBool True)])"
    and s: "store (snd (createUser rename_request world_with_ann)) (lit ''users_'', lit ''u1'') =
            Some (ann_profile(lit ''displayName'' \<mapsto> js_member (data rename_request) (lit ''displayName''),
                    lit ''email'' \<mapsto> js_member (data rename_request) (lit ''email''),
                    lit ''photoURL'' \<mapsto>
                      (if truthy (js_member (data rename_request) (lit ''photoURL''))
                       then js_member (data rename_request) (lit ''photoURL'') else JNull),
                    lit ''updatedAt'' \<mapsto> JTimestamp (time_at world_with_ann (Suc (tick world_with_ann)))))"
    by blast+
  have m: "lit ''User with UID '' @ lit ''u1'' @ lit '' updated successfully.''
           = lit ''User with UID u1 updated successfully.''"
    by (simp add: lit_def)
  have e: "ann_profile(lit ''displayName'' \<mapsto> JStr (lit ''Ann B''),
             lit ''email'' \<mapsto> JStr (lit ''annb@example.org''),
             lit ''photoURL'' \<mapsto> JNull,
             lit ''updatedAt'' \<mapsto> JTimestamp 1700000000001)
           = [lit ''displayName'' \<mapsto> JStr (lit ''Ann B''),
             lit ''email'' \<mapsto> JStr (lit ''annb@example.org''),
             lit ''photoURL'' \<mapsto> JNull,
             lit ''createdAt'' \<mapsto> JTimestamp 1600000000000,
             lit ''updatedAt'' \<mapsto> JTimestamp 1700000000001,
             lit ''role'' \<mapsto> JStr (lit ''admin'')]"
    by (rule ext) (simp add: ann_profile_def)
  from r m have "fst (createUser rename_request world_with_ann) =
     Inr (JObj [(lit ''result'', JStr (lit ''User with UID u1 updated successfully.'')),
                (lit ''updated'', JBool True)])"
    by simp
  moreover from s e have "store (snd (createUser rename_request world_with_ann)) (lit ''users_'', lit ''u1'') =
       Some [lit ''displayName'' \<mapsto> JStr (lit ''Ann B''),
             lit ''email'' \<mapsto> JStr (lit ''annb@example.org''),
             lit ''photoURL'' \<mapsto> JNull,
             lit ''createdAt'' \<mapsto> JTimestamp 1600000000000,
             lit ''updatedAt'' \<mapsto> JTimestamp 1700000000001,
             lit ''role'' \<mapsto> JStr (lit ''admin'')]"
    by (simp add: rename_request_fields world_with_ann_simps)
  ultimately show ?thesis by simp
qed

section \<open>The Stream registration is best effort\<close>

text \<open>
  Claim C4. Take a \<open>createUser\<close> call that passes validation and whose store read and
  write are accepted, and let the answer of the outside to the call after them (the one
  the Stream registration of the create branch makes) be \<open>b\<close>: rejected or not. The
  handler returns its success result and the store holds the written profile, the same
  for both values of \<open>b\<close>. In the create branch the trace shows the registration being
  attempted after the write.
\<close>

theorem createUser_ignores_directory_failure:
  assumes "js_member (data request) (lit ''uid'') = JStr k"
    and "\<not> bad_uid (JStr k)"
    and "\<not> bad_displayName (js_member (data request) (lit ''displayName''))"
    and "\<not> bad_email (js_member (data request) (lit ''email''))"
    and "\<not> fault_at w (tick w)"
    and "\<not> fault_at w (Suc (tick w))"
    and "w_b = w\<lparr>fault_at := (fault_at w)(Suc (Suc (tick w)) := b)\<rparr>"
  shows
    "(store w (lit ''users_'', k) = None \<longrightarrow>
        fst (createUser request w_b) =
          Inr (JObj [(lit ''result'',
                      JStr (lit ''User with UID '' @ k @ lit '' created successfully.'')),
                     (lit ''created'', JBool True)])
        \<and> store (snd (createUser request w_b)) =
            (store w)((lit ''users_'', k) \<mapsto>
              [lit ''displayName'' \<mapsto> js_member (data request) (lit ''displayName''),
               lit ''email'' \<mapsto> js_member (data request) (lit ''email''),
               lit ''photoURL'' \<mapsto> js_or (js_member (data request) (lit ''photoURL'')) JNull,
               lit ''createdAt'' \<mapsto> JTimestamp (time_at w (Suc (tick w))),
               lit ''updatedAt'' \<mapsto> JTimestamp (time_at w (Suc (tick w)))])
        \<and> trace (snd (createUser request w_b)) =
            trace w @
              [DocGet (lit ''users_'') k,
               DocSet (lit ''users_'') k
                 [(lit ''displayName'', Value (js_member (data request) (lit ''displayName''))),
                  (lit ''email'', Value (js_member (data request) (lit ''email''))),
                  (lit ''photoURL'', Value (js_or (js_member (data request) (lit ''photoURL'')) JNull)),
                  (lit ''createdAt'', ServerTimestamp),
                  (lit ''updatedAt'', ServerTimestamp)],
               StreamUserCreate
                 (JObj [(lit ''id'', JStr k),
                        (lit ''name'', js_member (data request) (lit ''displayName'')),
                        (lit ''image'', js_member (data request) (lit ''photoURL''))])]
        \<and> fault_at w_b (tick w_b + 2) = b)
     \<and> (\<forall>d. store w (lit ''users_'', k) = Some d \<longrightarrow>
        fst (createUser request w_b) =
          Inr (JObj [(lit ''result'',
                      JStr (lit ''User with UID '' @ k @ lit '' updated successfully.'')),
                     (lit ''updated'', JBool True)])
        \<and> store (snd (createUser request w_b)) =
            (store w)((lit ''users_'', k) \<mapsto>
              d(lit ''displayName'' \<mapsto> js_member (data request) (lit ''displayName''),
                lit ''email'' \<mapsto> js_member (data request) (lit ''email''),
                lit ''photoURL'' \<mapsto> js_or (js_member (data request) (lit ''photoURL'')) JNull,
                lit ''updatedAt'' \<mapsto> JTimestamp (time_at w (Suc (tick w))))))"
proof -
  have t: "tick w_b = tick w" and s: "store w_b = store w" and tr: "trace w_b = trace w"
    and tm: "time_at w_b = time_at w"
    and f0: "\<not> fault_at w_b (tick w_b)" and f1: "\<not> fault_at w_b (Suc (tick w_b))"
    using assms by simp_all
  show ?thesis
  proof (intro conjI impI allI)
    assume "store w (lit ''users_'', k) = None"
    then have n: "store w_b (lit ''users_'', k) = None" by (simp add: s)
    note C = createUser_create [OF assms(1) n assms(2,3,4) f0 f1]
    show "fst (createUser request w_b) =
          Inr (JObj [(lit ''result'',
                      JStr (lit ''User with UID '' @ k @ lit '' created successfully.'')),
                     (lit ''created'', JBool True)])"
      by (simp add: C)
    show "store (snd (createUser request w_b)) =
            (store w)((lit ''users_'', k) \<mapsto>
              [lit ''displayName'' \<mapsto> js_member (data request) (lit ''displayName''),
               lit ''email'' \<mapsto> js_member (data request) (lit ''email''),
               lit ''photoURL'' \<mapsto> js_or (js_member (data request) (lit ''photoURL'')) JNull,
               lit ''createdAt'' \<mapsto> JTimestamp (time_at w (Suc (tick w))),
               lit ''updatedAt'' \<mapsto> JTimestamp (time_at w (Suc (tick w)))])"
      by (simp add: C t s tm)
    show "trace (snd (createUser request w_b)) =
            trace w @
              [DocGet (lit ''users_'') k,
               DocSet (lit ''users_'') k
                 [(lit ''displayName'', Value (js_member (data request) (lit ''displayName''))),
                  (lit ''email'', Value (js_member (data request) (lit ''email''))),
                  (lit ''photoURL'', Value (js_or (js_member (data request) (lit ''photoURL'')) JNull)),
                  (lit ''createdAt'', ServerTimestamp),
                  (lit ''updatedAt'', ServerTimestamp)],
               StreamUserCreate
                 (JObj [(lit ''id'', JStr k),
                        (lit ''name'', js_member (data request) (lit ''displayName'')),
                        (lit ''image'', js_member (data request) (lit ''photoURL''))])]"
      by (simp add: C tr)
    show "fault_at w_b (tick w_b + 2) = b"
      using assms(7) by simp
  next
    fix d
    assume "store w (lit ''users_'', k) = Some d"
    then have n: "store w_b (lit ''users_'', k) = Some d" by (simp add: s)
    note U = createUser_update [OF assms(1) n assms(2,3,4) f0 f1]
    show "fst (createUser request w_b) =
          Inr (JObj [(lit ''result'',
                      JStr (lit ''User with UID '' @ k @ lit '' updated successfully.'')),
                     (lit ''updated'', JBool True)])"
      by (simp add: U)
    show "store (snd (createUser request w_b)) =
            (store w)((lit ''users_'', k) \<mapsto>
              d(lit ''displayName'' \<mapsto> js_member (data request) (lit ''displayName''),
                lit ''email'' \<mapsto> js_member (data request) (lit ''email''),
                lit ''photoURL'' \<mapsto> js_or (js_member (data request) (lit ''photoURL'')) JNull,
                lit ''updatedAt'' \<mapsto> JTimestamp (time_at w (Suc (tick w)))))"
      by (simp add: U t s tm)
  qed
qed

theorem createUser_ignores_directory_failure_witness:
  "fst (createUser new_user_request stream_down_world) =
     Inr (JObj [(lit ''result'', JStr (lit ''User with UID u2 created successfully.'')),
                (lit ''created'', JBool True)])
   \<and> store (snd (createUser new_user_request stream_down_world)) (lit ''users_'', lit ''u2'') =
       Some [lit ''displayName'' \<mapsto> JStr (lit ''Bob''),
             lit ''email'' \<mapsto> JStr (lit ''bob@example.org''),
             lit ''photoURL'' \<mapsto> JNull,
             lit ''createdAt'' \<mapsto> JTimestamp 1700000000001,
             lit ''updatedAt'' \<mapsto> JTimestamp 1700000000001]
   \<and> fault_at stream_down_world (tick stream_down_world + 2)"
proof -
  have w: "stream_down_world =
      world_with_ann\<lparr>fault_at := (fault_at world_with_ann)(Suc (Suc (tick world_with_ann)) := True)\<rparr>"
    by (simp add: stream_down_world_def world_with_ann_simps numeral_2_eq_2)
  have v: "\<not> bad_uid (JStr (lit ''u2''))"
    "\<not> bad_displayName (js_member (data new_user_request) (lit ''displayName''))"
    "\<not> bad_email (js_member (data new_user_request) (lit ''email''))"
    "\<not> fault_at world_with_ann (tick world_with_ann)"
    "\<not> fault_at world_with_ann (Suc (tick world_with_ann))"
    by (simp_all add: new_user_request_fields new_user_request_valid world_with_ann_simps)
  note T = createUser_ignores_directory_failure
    [OF new_user_request_fields(1) v w, THEN conjunct1, rule_format, OF world_with_ann_u2]
  have m: "lit ''User with UID '' @ lit ''u2'' @ lit '' created successfully.''
           = lit ''User with UID u2 created successfully.''"
    by (simp add: lit_def)
  from T m show ?thesis
    by (simp add: new_user_request_fields world_with_ann_simps js_or_def)
qed

section \<open>The update branch and the Stream registration\<close>

text \<open>
  Claim C2 says that the handler attempts the Stream registration after the store write
  in the create branch and in the update branch. The create branch does
  (\<open>createUser_create\<close>). The update branch returns right after the update: for a call
  that passes validation, finds the profile and has its read and update accepted, the
  result is \<open>updated = true\<close> and the calls made are the read and the update, with no
  Stream call after them.
\<close>

theorem createUser_update_makes_no_stream_call:
  assumes "js_member (data request) (lit ''uid'') = JStr k"
    and "store w (lit ''users_'', k) = Some d"
    and "\<not> bad_uid (JStr k)"
    and "\<not> bad_displayName (js_member (data request) (lit ''displayName''))"
    and "\<not> bad_email (js_member (data request) (lit ''email''))"
    and "\<not> fault_at w (tick w)"
    and "\<not> fault_at w (Suc (tick w))"
  shows "fst (createUser request w) =
           Inr (JObj [(lit ''result'',
                       JStr (lit ''User with UID '' @ k @ lit '' updated successfully.'')),
                      (lit ''updated'', JBool True)])
         \<and> trace (snd (createUser request w)) =
             trace w @
               [DocGet (lit ''users_'') k,
                DocUpdate (lit ''users_'') k
                  [(lit ''displayName'', Value (js_member (data request) (lit ''displayName''))),
                   (lit ''email'', Value (js_member (data request) (lit ''email''))),
                   (lit ''photoURL'', Value (js_or (js_member (data request) (lit ''photoURL'')) JNull)),
                   (lit ''updatedAt'', ServerTimestamp)]]"
  by (simp add: createUser_update [OF assms])

theorem createUser_update_makes_no_stream_call_witness:
  "fst (createUser rename_request world_with_ann) =
     Inr (JObj [(lit ''result'', JStr (lit ''User with UID u1 updated successfully.'')),
                (lit ''updated'', JBool True)])
   \<and> trace (snd (createUser rename_request world_with_ann)) =
       [DocGet (lit ''users_'') (lit ''u1''),
        DocUpdate (lit ''users_'') (lit ''u1'')
          [(lit ''displayName'', Value (JStr (lit ''Ann B''))),
           (lit ''email'', Value (JStr (lit ''annb@example.org''))),
           (lit ''photoURL'', Value JNull),
           (lit ''updatedAt'', ServerTimestamp)]]"
proof -
  have v: "\<not> bad_uid (JStr (lit ''u1''))"
    "\<not> bad_displayName (js_member (data rename_request) (lit ''displayName''))"
    "\<not> bad_email (js_member (data rename_request) (lit ''email''))"
    "\<not> fault_at world_with_ann (tick world_with_ann)"
    "\<not> fault_at world_with_ann (Suc (tick world_with_ann))"
    by (simp_all add: rename_request_fields world_with_ann_simps good_uid_u1 good_displayName_Ann_B
        good_email_annb)
  note T = createUser_update_makes_no_stream_call
    [OF rename_request_fields(1) world_with_ann_simps(1) v]
  have m: "lit ''User with UID '' @ lit ''u1'' @ lit '' updated successfully.''
           = lit ''User with UID u1 updated successfully.''"
    by (simp add: lit_def)
  from T m show ?thesis
    by (simp add: rename_request_fields world_with_ann_simps js_or_def)
qed

section \<open>Reading another user's profile\<close>

text \<open>
  Claim C3. An authenticated \<open>getUserProfile\<close> call that names a target other than the
  caller fails with \<open>PermissionDenied\<close> unless the read of the caller's own profile is
  accepted and yields a profile whose role is \<open>admin\<close>. In particular a rejected read
  (the store is unavailable) gives \<open>PermissionDenied\<close>, not \<open>Internal\<close>. Only the caller's
  own document is read. (A target counts as named when it is truthy, as the source tests
  it.)
\<close>

theorem getUserProfile_other_requires_admin:
  assumes "auth request = Some uid"
    and "target = opt_member (data request) (lit ''userId'')"
    and "truthy target"
    and "target \<noteq> JStr uid"
    and "\<not> (\<not> fault_at w (tick w)
            \<and> (\<exists>d. store w (lit ''users_'', uid) = Some d
                    \<and> doc_field d (lit ''role'') = JStr (lit ''admin'')))"
  shows "getUserProfile request w =
           (Inl (HttpsError PermissionDenied (lit ''Failed to verify permissions.'')),
            step [DocGet (lit ''users_'') uid] w)
         \<and> failure_kind (fst (getUserProfile request w)) = Some PermissionDenied
         \<and> (fault_at w (tick w) \<longrightarrow> failure_kind (fst (getUserProfile request w)) \<noteq> Some Internal)"
proof -
  from assms(5) have "fault_at w (tick w)
           \<or> (\<forall>d. store w (lit ''users_'', uid) = Some d \<longrightarrow>
                  doc_field d (lit ''role'') \<noteq> JStr (lit ''admin''))"
    by blast
  then obtain e where "check_admin uid w = (Inl e, step [DocGet (lit ''users_'') uid] w)"
    using check_admin_denied by blast
  with assms(1-4) have r: "getUserProfile request w =
           (Inl (HttpsError PermissionDenied (lit ''Failed to verify permissions.'')),
            step [DocGet (lit ''users_'') uid] w)"
    by (simp add: getUserProfile_def Let_def)
  then show ?thesis
    by (simp add: failure_kind_def)
qed

theorem getUserProfile_other_requires_admin_witness:
  "getUserProfile stranger_reads_ann world_with_ann =
     (Inl (HttpsError PermissionDenied (lit ''Failed to verify permissions.'')),
      step [DocGet (lit ''users_'') (lit ''u3'')] world_with_ann)
   \<and> failure_kind (fst (getUserProfile admin_reads_missing store_down_world)) = Some PermissionDenied"
proof
  have "\<not> (\<not> fault_at world_with_ann (tick world_with_ann)
            \<and> (\<exists>d. store world_with_ann (lit ''users_'', lit ''u3'') = Some d
                    \<and> doc_field d (lit ''role'') = JStr (lit ''admin'')))"
    by (simp add: world_with_ann_others)
  from getUserProfile_other_requires_admin
    [OF profile_requests(1) profile_requests(2) [symmetric] _ _ this]
  show "getUserProfile stranger_reads_ann world_with_ann =
     (Inl (HttpsError PermissionDenied (lit ''Failed to verify permissions.'')),
      step [DocGet (lit ''users_'') (lit ''u3'')] world_with_ann)"
    by simp
next
  have "\<not> (\<not> fault_at store_down_world (tick store_down_world)
            \<and> (\<exists>d. store store_down_world (lit ''users_'', lit ''u1'') = Some d
                    \<and> doc_field d (lit ''role'') = JStr (lit ''admin'')))"
    by (simp add: store_down_world_simps)
  from getUserProfile_other_requires_admin
    [OF profile_requests(5) profile_requests(6) [symmetric] _ _ this]
  show "failure_kind (fst (getUserProfile admin_reads_missing store_down_world)) = Some PermissionDenied"
    by (simp add: failure_kind_def)
qed

section \<open>Reading a profile that does not exist\<close>

text \<open>
  Claim C1 says that an authorised \<open>getUserProfile\<close> call for a target without a
  profile fails with \<open>NotFound\<close>. The source throws its \<open>not-found\<close> error inside the
  \<^verbatim>\<open>try\<close> block whose \<^verbatim>\<open>catch\<close> turns every error into \<open>internal\<close>, so the call fails
  with \<open>Internal\<close>: for the caller's own profile, and for an admin reading another
  user's.
\<close>

theorem getUserProfile_missing_profile_is_internal:
  assumes "auth request = Some uid"
    and "target = opt_member (data request) (lit ''userId'')"
    and "(\<not> (truthy target \<and> target \<noteq> JStr uid) \<and> resolved = JStr uid)
         \<or> (truthy target \<and> target \<noteq> JStr uid \<and> resolved = target
             \<and> \<not> fault_at w (tick w)
             \<and> (\<exists>d. store w (lit ''users_'', uid) = Some d
                     \<and> doc_field d (lit ''role'') = JStr (lit ''admin'')))"
    and "\<forall>k. resolved = JStr k \<longrightarrow> store w (lit ''users_'', k) = None"
  shows "fst (getUserProfile request w) =
           Inl (HttpsError Internal (lit ''Failed to fetch user profile.''))
         \<and> failure_kind (fst (getUserProfile request w)) \<noteq> Some NotFound"
proof -
  have "fst (getUserProfile request w) =
           Inl (HttpsError Internal (lit ''Failed to fetch user profile.''))"
    using assms(3)
  proof (elim disjE conjE)
    assume self: "\<not> (truthy target \<and> target \<noteq> JStr uid)" and r: "resolved = JStr uid"
    from assms(4) r obtain e w' where "fetch_profile (JStr uid) w = (Inl e, w')"
      using fetch_profile_missing [of "JStr uid" w] by blast
    with assms(1,2) self show ?thesis
      by (auto simp: getUserProfile_def Let_def)
  next
    assume other: "truthy target" "target \<noteq> JStr uid" and r: "resolved = target"
      and nf: "\<not> fault_at w (tick w)"
      and "\<exists>d. store w (lit ''users_'', uid) = Some d
               \<and> doc_field d (lit ''role'') = JStr (lit ''admin'')"
    then obtain d where d: "store w (lit ''users_'', uid) = Some d"
      "doc_field d (lit ''role'') = JStr (lit ''admin'')"
      by blast
    note g = check_admin_granted [OF nf d]
    from assms(4) r
    have "\<forall>k. target = JStr k \<longrightarrow> store (step [DocGet (lit ''users_'') uid] w) (lit ''users_'', k) = None"
      by simp
    then obtain e w' where "fetch_profile target (step [DocGet (lit ''users_'') uid] w) = (Inl e, w')"
      using fetch_profile_missing [of target "step [DocGet (lit ''users_'') uid] w"] by blast
    with assms(1,2) other g show ?thesis
      by (simp add: getUserProfile_def Let_def)
  qed
  then show ?thesis
    by (simp add: failure_kind_def)
qed

theorem getUserProfile_missing_profile_is_internal_witness:
  "fst (getUserProfile stranger_reads_self world_with_ann) =
     Inl (HttpsError Internal (lit ''Failed to fetch user profile.''))
   \<and> fst (getUserProfile admin_reads_missing world_with_ann) =
     Inl (HttpsError Internal (lit ''Failed to fetch user profile.''))"
proof
  have a: "(\<not> (truthy JUndefined \<and> JUndefined \<noteq> JStr (lit ''u3'')) \<and> JStr (lit ''u3'') = JStr (lit ''u3''))
         \<or> (truthy JUndefined \<and> JUndefined \<noteq> JStr (lit ''u3'') \<and> JStr (lit ''u3'') = JUndefined
             \<and> \<not> fault_at world_with_ann (tick world_with_ann)
             \<and> (\<exists>d. store world_with_ann (lit ''users_'', lit ''u3'') = Some d
                     \<and> doc_field d (lit ''role'') = JStr (lit ''admin'')))"
    by simp
  have m: "\<forall>k. JStr (lit ''u3'') = JStr k \<longrightarrow> store world_with_ann (lit ''users_'', k) = None"
    by (simp add: world_with_ann_others)
  from getUserProfile_missing_profile_is_internal
    [OF profile_requests(3) profile_requests(4) [symmetric] a m]
  show "fst (getUserProfile stranger_reads_self world_with_ann) =
     Inl (HttpsError Internal (lit ''Failed to fetch user profile.''))"
    by simp
next
  have a: "(\<not> (truthy (JStr (lit ''u9'')) \<and> JStr (lit ''u9'') \<noteq> JStr (lit ''u1''))
            \<and> JStr (lit ''u9'') = JStr (lit ''u1''))
         \<or> (truthy (JStr (lit ''u9'')) \<and> JStr (lit ''u9'') \<noteq> JStr (lit ''u1'')
             \<and> JStr (lit ''u9'') = JStr (lit ''u9'')
             \<and> \<not> fault_at world_with_ann (tick world_with_ann)
             \<and> (\<exists>d. store world_with_ann (lit ''users_'', lit ''u1'') = Some d
                     \<and> doc_field d (lit ''role'') = JStr (lit ''admin'')))"
    by (simp add: world_with_ann_simps ann_is_admin)
  have m: "\<forall>k. JStr (lit ''u9'') = JStr k \<longrightarrow> store world_with_ann (lit ''users_'', k) = None"
    by (simp add: world_with_ann_others)
  from getUserProfile_missing_profile_is_internal
    [OF profile_requests(5) profile_requests(6) [symmetric] a m]
  show "fst (getUserProfile admin_reads_missing world_with_ann) =
     Inl (HttpsError Internal (lit ''Failed to fetch user profile.''))"
    by simp
qed

section \<open>The participants of a session\<close>

text \<open>
  Claim C7. For an authenticated \<open>createVideoSession\<close> call whose participants are a
  non-empty array \<open>ps\<close>, let \<open>final\<close> be \<open>ps\<close> when the caller is in it and \<open>ps\<close> with the
  caller appended otherwise. The caller is in \<open>final\<close>; a successful call returns
  \<open>final\<close> and stores it in the session document it creates (a failed call is
  \<open>Internal\<close> and stores nothing); the call succeeds when the store accepts the write
  and the participants can be logged. When the caller was absent from a duplicate-free
  \<open>ps\<close>, \<open>final\<close> is duplicate-free and its members are those of \<open>ps\<close> and the caller: for
  caller \<open>a\<close> and participants \<open>b\<close>, \<open>c\<close> that is \<open>b\<close>, \<open>c\<close>, \<open>a\<close>.
\<close>

theorem createVideoSession_caller_is_participant:
  assumes "auth request = Some uid"
    and "js_member (data request) (lit ''participants'') = JArr ps"
    and "ps \<noteq> []"
    and "final = (if JStr uid \<in> set ps then ps else ps @ [JStr uid])"
  shows "JStr uid \<in> set final
     \<and> (case createVideoSession request w of
           (Inr r, w') \<Rightarrow>
             js_member r (lit ''participants'') = JArr final
             \<and> (\<exists>sid d. js_member r (lit ''sessionId'') = JStr sid
                   \<and> store w' (lit ''videoSessions'', sid) = Some d
                   \<and> d (lit ''participants'') = Some (JArr final))
         | (Inl e, w') \<Rightarrow> code e = Internal \<and> store w' = store w)
     \<and> (\<not> join_throws (JArr ps) \<and> \<not> fault_at w (Suc (Suc (tick w))) \<longrightarrow>
           (\<exists>r w'. createVideoSession request w = (Inr r, w')))
     \<and> (JStr uid \<notin> set ps \<and> distinct ps \<longrightarrow>
           distinct final \<and> set final = insert (JStr uid) (set ps))"
proof (intro conjI)
  show "JStr uid \<in> set final"
    using assms(4) by simp
  show "case createVideoSession request w of
           (Inr r, w') \<Rightarrow>
             js_member r (lit ''participants'') = JArr final
             \<and> (\<exists>sid d. js_member r (lit ''sessionId'') = JStr sid
                   \<and> store w' (lit ''videoSessions'', sid) = Some d
                   \<and> d (lit ''participants'') = Some (JArr final))
         | (Inl e, w') \<Rightarrow> code e = Internal \<and> store w' = store w"
    by (rule createVideoSession_outcome(1) [OF assms])
  show "\<not> join_throws (JArr ps) \<and> \<not> fault_at w (Suc (Suc (tick w))) \<longrightarrow>
           (\<exists>r w'. createVideoSession request w = (Inr r, w'))"
    by (rule createVideoSession_outcome(2) [OF assms])
  show "JStr uid \<notin> set ps \<and> distinct ps \<longrightarrow>
           distinct final \<and> set final = insert (JStr uid) (set ps)"
    using assms(4) by simp
qed

theorem createVideoSession_caller_is_participant_witness:
  "fst (createVideoSession abc_request empty_world) =
     Inr (JObj [(lit ''sessionId'', JStr (lit ''session-1700000000000-k3x9q2a'')),
                (lit ''createdAt'', JStr (lit ''2023-11-14T22:13:20.003Z'')),
                (lit ''participants'', JArr [JStr (lit ''b''), JStr (lit ''c''), JStr (lit ''a'')])])
   \<and> (\<exists>r w'. createVideoSession abc_request empty_world = (Inr r, w')
         \<and> js_member r (lit ''participants'') = JArr [JStr (lit ''b''), JStr (lit ''c''), JStr (lit ''a'')]
         \<and> (\<exists>sid d. js_member r (lit ''sessionId'') = JStr sid
               \<and> store w' (lit ''videoSessions'', sid) = Some d
               \<and> d (lit ''participants'') =
                   Some (JArr [JStr (lit ''b''), JStr (lit ''c''), JStr (lit ''a'')])))
   \<and> distinct [JStr (lit ''b''), JStr (lit ''c''), JStr (lit ''a'')]
   \<and> set [JStr (lit ''b''), JStr (lit ''c''), JStr (lit ''a'')]
       = {JStr (lit ''a''), JStr (lit ''b''), JStr (lit ''c'')}"
proof -
  have f: "[JStr (lit ''b''), JStr (lit ''c''), JStr (lit ''a'')] =
      (if JStr (lit ''a'') \<in> set [JStr (lit ''b''), JStr (lit ''c'')]
       then [JStr (lit ''b''), JStr (lit ''c'')]
       else [JStr (lit ''b''), JStr (lit ''c'')] @ [JStr (lit ''a'')])"
    by simp
  note T = createVideoSession_caller_is_participant
    [OF session_requests(1,2) _ f, of empty_world]
  have ok: "\<not> join_throws (JArr [JStr (lit ''b''), JStr (lit ''c'')])
            \<and> \<not> fault_at empty_world (Suc (Suc (tick empty_world)))"
    by (simp add: empty_world_simps)
  have new: "JStr (lit ''a'') \<notin> set [JStr (lit ''b''), JStr (lit ''c'')]
             \<and> distinct [JStr (lit ''b''), JStr (lit ''c'')]"
    by simp
  from T ok obtain r w' where r: "createVideoSession abc_request empty_world = (Inr r, w')"
    by auto
  with T have "js_member r (lit ''participants'') = JArr [JStr (lit ''b''), JStr (lit ''c''), JStr (lit ''a'')]
         \<and> (\<exists>sid d. js_member r (lit ''sessionId'') = JStr sid
               \<and> store w' (lit ''videoSessions'', sid) = Some d
               \<and> d (lit ''participants'') =
                   Some (JArr [JStr (lit ''b''), JStr (lit ''c''), JStr (lit ''a'')]))"
    by simp
  with r have "\<exists>r w'. createVideoSession abc_request empty_world = (Inr r, w')
         \<and> js_member r (lit ''participants'') = JArr [JStr (lit ''b''), JStr (lit ''c''), JStr (lit ''a'')]
         \<and> (\<exists>sid d. js_member r (lit ''sessionId'') = JStr sid
               \<and> store w' (lit ''videoSessions'', sid) = Some d
               \<and> d (lit ''participants'') =
                   Some (JArr [JStr (lit ''b''), JStr (lit ''c''), JStr (lit ''a'')]))"
    by blast
  moreover from T new have "distinct [JStr (lit ''b''), JStr (lit ''c''), JStr (lit ''a'')]
   \<and> set [JStr (lit ''b''), JStr (lit ''c''), JStr (lit ''a'')]
       = insert (JStr (lit ''a'')) (set [JStr (lit ''b''), JStr (lit ''c'')])"
    by blast
  ultimately show ?thesis
    using createVideoSession_abc by auto
qed

text \<open>
  Claim C10. When the participants array already holds the caller, a successful
  \<open>createVideoSession\<close> returns and stores the array as given: nothing is removed, so
  duplicates stay (caller \<open>b\<close> with participants \<open>b\<close>, \<open>b\<close> gets \<open>b\<close>, \<open>b\<close> back).
\<close>

theorem createVideoSession_keeps_given_array:
  assumes "auth request = Some uid"
    and "js_member (data request) (lit ''participants'') = JArr ps"
    and "JStr uid \<in> set ps"
  shows "(case createVideoSession request w of
           (Inr r, w') \<Rightarrow>
             js_member r (lit ''participants'') = JArr ps
             \<and> (\<exists>sid d. js_member r (lit ''sessionId'') = JStr sid
                   \<and> store w' (lit ''videoSessions'', sid) = Some d
                   \<and> d (lit ''participants'') = Some (JArr ps))
         | (Inl e, w') \<Rightarrow> code e = Internal \<and> store w' = store w)
     \<and> (\<not> join_throws (JArr ps) \<and> \<not> fault_at w (Suc (Suc (tick w))) \<longrightarrow>
           (\<exists>r w'. createVideoSession request w = (Inr r, w')))"
proof -
  from assms(3) have ne: "ps \<noteq> []" by auto
  from assms(3) have f: "ps = (if JStr uid \<in> set ps then ps else ps @ [JStr uid])" by simp
  from createVideoSession_outcome [OF assms(1,2) ne f, of w] show ?thesis
    by blast
qed

theorem createVideoSession_keeps_given_array_witness:
  "(\<exists>r w'. createVideoSession bb_request empty_world = (Inr r, w')
      \<and> js_member r (lit ''participants'') = JArr [JStr (lit ''b''), JStr (lit ''b'')]
      \<and> (\<exists>sid d. js_member r (lit ''sessionId'') = JStr sid
            \<and> store w' (lit ''videoSessions'', sid) = Some d
            \<and> d (lit ''participants'') = Some (JArr [JStr (lit ''b''), JStr (lit ''b'')])))
   \<and> \<not> distinct [JStr (lit ''b''), JStr (lit ''b'')]"
proof -
  have m: "JStr (lit ''b'') \<in> set [JStr (lit ''b''), JStr (lit ''b'')]"
    by simp
  note T = createVideoSession_keeps_given_array [OF session_requests(3,4) m, of empty_world]
  have ok: "\<not> join_throws (JArr [JStr (lit ''b''), JStr (lit ''b'')])
            \<and> \<not> fault_at empty_world (Suc (Suc (tick empty_world)))"
    by (simp add: empty_world_simps)
  from T ok obtain r w' where r: "createVideoSession bb_request empty_world = (Inr r, w')"
    by auto
  with T have "js_member r (lit ''participants'') = JArr [JStr (lit ''b''), JStr (lit ''b'')]
      \<and> (\<exists>sid d. js_member r (lit ''sessionId'') = JStr sid
            \<and> store w' (lit ''videoSessions'', sid) = Some d
            \<and> d (lit ''participants'') = Some (JArr [JStr (lit ''b''), JStr (lit ''b'')]))"
    by simp
  with r show ?thesis
    by auto
qed

section \<open>The issued token\<close>

text \<open>
  Claim C9 says that a successful \<open>generateStreamToken\<close> returns the fields \<open>token\<close>,
  \<open>expiresAt\<close> and \<open>generatedAt\<close>, with \<open>expiresAt\<close> the issuance instant plus 24 hours and
  \<open>generatedAt\<close> that instant in ISO-8601 form. The source names the third field
  \<open>generated\<close>, and reads the clock twice: \<^verbatim>\<open>Date.now()\<close> for \<open>expiresAt\<close>, then
  \<^verbatim>\<open>new Date()\<close> for \<open>generated\<close>. With a clock that moves between the two reads the
  output has no field \<open>generatedAt\<close>, and \<open>generated\<close> is not the ISO form of \<open>expiresAt\<close>
  less 24 hours.
\<close>

theorem generateStreamToken_no_generatedAt_counterexample:
  "fst (generateStreamToken token_request empty_world) =
     Inr (JObj [(lit ''token'', JStr (lit ''jwt.a'')),
                (lit ''expiresAt'', JNum 1700086400001),
                (lit ''generated'', JStr (lit ''2023-11-14T22:13:20.002Z''))])
   \<and> js_member (JObj [(lit ''token'', JStr (lit ''jwt.a'')),
                       (lit ''expiresAt'', JNum 1700086400001),
                       (lit ''generated'', JStr (lit ''2023-11-14T22:13:20.002Z''))])
        (lit ''generatedAt'') = JUndefined
   \<and> toISOString (1700086400001 - 86400000) \<noteq> lit ''2023-11-14T22:13:20.002Z''"
  using generateStreamToken_sample toISOString_sample_1
  by simp

text \<open>
  Claim C9 as amended. Every successful \<open>generateStreamToken\<close> call is authenticated and
  returns exactly the fields \<open>token\<close> (the token the Stream client signs for the caller),
  \<open>expiresAt\<close> (the first clock reading plus \<open>24 * 60 * 60 * 1000\<close> milliseconds) and
  \<open>generated\<close> (the ISO-8601 form of the second clock reading); there is no field
  \<open>generatedAt\<close>.
\<close>

theorem generateStreamToken_output:
  assumes "generateStreamToken request w = (Inr out, w')"
  shows "\<exists>uid. auth request = Some uid
           \<and> out = JObj [(lit ''token'', JStr (mint w uid)),
                         (lit ''expiresAt'', JNum (time_at w (Suc (tick w)) + 24 * 60 * 60 * 1000)),
                         (lit ''generated'', JStr (toISOString (time_at w (Suc (Suc (tick w))))))]
           \<and> js_member out (lit ''generatedAt'') = JUndefined"
proof (cases "auth request = None \<or> fault_at w (tick w)")
  case True
  then show ?thesis
    using generateStreamToken_fail [of request w] assms by auto
next
  case False
  then obtain uid where "auth request = Some uid" "\<not> fault_at w (tick w)"
    by auto
  with assms show ?thesis
    by (auto simp: generateStreamToken_ok)
qed

theorem generateStreamToken_output_witness:
  "\<exists>uid. auth token_request = Some uid
     \<and> JObj [(lit ''token'', JStr (lit ''jwt.a'')),
             (lit ''expiresAt'', JNum 1700086400001),
             (lit ''generated'', JStr (lit ''2023-11-14T22:13:20.002Z''))]
       = JObj [(lit ''token'', JStr (mint empty_world uid)),
               (lit ''expiresAt'', JNum (time_at empty_world (Suc (tick empty_world)) + 24 * 60 * 60 * 1000)),
               (lit ''generated'', JStr (toISOString (time_at empty_world (Suc (Suc (tick empty_world))))))]
     \<and> js_member (JObj [(lit ''token'', JStr (lit ''jwt.a'')),
             (lit ''expiresAt'', JNum 1700086400001),
             (lit ''generated'', JStr (lit ''2023-11-14T22:13:20.002Z''))]) (lit ''generatedAt'') = JUndefined"
proof -
  obtain w' where "generateStreamToken token_request empty_world =
     (Inr (JObj [(lit ''token'', JStr (lit ''jwt.a'')),
                (lit ''expiresAt'', JNum 1700086400001),
                (lit ''generated'', JStr (lit ''2023-11-14T22:13:20.002Z''))]), w')"
    using generateStreamToken_sample by (cases "generateStreamToken token_request empty_world") simp
  then show ?thesis
    by (rule generateStreamToken_output)
qed

end
